theory Spec2Isabelle
  imports Complex_Main "HOL-Library.Sublist"
begin

section \<open>Python values used by the travel-agency assistant\<close>

subsection \<open>Strings\<close>

text \<open>
  A Python \<open>str\<close> is a list of characters; the model's characters are the code points
  below 256 (Latin-1), and text with other code points is outside the model.
  \<open>str.lower\<close> maps the letters A-Z and the upper-case letters 0xC0-0xDE (all of that
  range but the multiplication sign 0xD7) to the code point 32 higher and leaves every
  other character as it is. The white space that \<open>str.strip\<close> and \<open>str.split\<close> remove
  is: tab, line feed, vertical tab, form feed, carriage return, the four separators
  0x1C-0x1F, the blank, the next-line character 0x85 and the no-break space 0xA0.
\<close>

definition lower_char :: "char \<Rightarrow> char" where
  "lower_char c =
     (case map_of
             (zip (''ABCDEFGHIJKLMNOPQRSTUVWXYZ'' @
                   [CHR 0xC0, CHR 0xC1, CHR 0xC2, CHR 0xC3, CHR 0xC4, CHR 0xC5, CHR 0xC6, CHR 0xC7,
                    CHR 0xC8, CHR 0xC9, CHR 0xCA, CHR 0xCB, CHR 0xCC, CHR 0xCD, CHR 0xCE, CHR 0xCF,
                    CHR 0xD0, CHR 0xD1, CHR 0xD2, CHR 0xD3, CHR 0xD4, CHR 0xD5, CHR 0xD6,
                    CHR 0xD8, CHR 0xD9, CHR 0xDA, CHR 0xDB, CHR 0xDC, CHR 0xDD, CHR 0xDE])
                  (''abcdefghijklmnopqrstuvwxyz'' @
                   [CHR 0xE0, CHR 0xE1, CHR 0xE2, CHR 0xE3, CHR 0xE4, CHR 0xE5, CHR 0xE6, CHR 0xE7,
                    CHR 0xE8, CHR 0xE9, CHR 0xEA, CHR 0xEB, CHR 0xEC, CHR 0xED, CHR 0xEE, CHR 0xEF,
                    CHR 0xF0, CHR 0xF1, CHR 0xF2, CHR 0xF3, CHR 0xF4, CHR 0xF5, CHR 0xF6,
                    CHR 0xF8, CHR 0xF9, CHR 0xFA, CHR 0xFB, CHR 0xFC, CHR 0xFD, CHR 0xFE])) c of
        Some d \<Rightarrow> d
      | None \<Rightarrow> c)"

definition py_lower :: "string \<Rightarrow> string" where
  "py_lower s = map lower_char s"

text \<open>\<open>s.startswith(p)\<close> and the substring test \<open>kw in s\<close>.\<close>

fun startswith :: "string \<Rightarrow> string \<Rightarrow> bool" where
  "startswith s [] = True"
| "startswith [] (p # ps) = False"
| "startswith (c # cs) (p # ps) = (c = p \<and> startswith cs ps)"

fun py_in :: "string \<Rightarrow> string \<Rightarrow> bool" where
  "py_in kw [] = (kw = [])"
| "py_in kw (c # cs) = (startswith (c # cs) kw \<or> py_in kw cs)"

definition is_space :: "char \<Rightarrow> bool" where
  "is_space c = (c \<in> set [CHR 0x09, CHR 0x0A, CHR 0x0B, CHR 0x0C, CHR 0x0D,
                            CHR 0x1C, CHR 0x1D, CHR 0x1E, CHR 0x1F, CHR 0x20,
                            CHR 0x85, CHR 0xA0])"

definition py_strip :: "string \<Rightarrow> string" where
  "py_strip s = rev (dropWhile is_space (rev (dropWhile is_space s)))"

text \<open>\<open>s.split()\<close>: the maximal runs of non-space characters, in order.\<close>

fun split_acc :: "string \<Rightarrow> string \<Rightarrow> string list" where
  "split_acc cur [] = (if cur = [] then [] else [rev cur])"
| "split_acc cur (c # cs) =
     (if is_space c then (if cur = [] then split_acc [] cs else rev cur # split_acc [] cs)
      else split_acc (c # cur) cs)"

definition py_split :: "string \<Rightarrow> string list" where
  "py_split s = split_acc [] s"

text \<open>\<open>s.find(c)\<close> and \<open>s.rfind(c)\<close> for a one-character needle: \<open>-1\<close> when absent.\<close>

definition py_find :: "string \<Rightarrow> char \<Rightarrow> int" where
  "py_find s c = (if c \<in> set s then int (length (takeWhile (\<lambda>x. x \<noteq> c) s)) else - 1)"

definition py_rfind :: "string \<Rightarrow> char \<Rightarrow> int" where
  "py_rfind s c =
     (if c \<in> set s then int (length s) - 1 - int (length (takeWhile (\<lambda>x. x \<noteq> c) (rev s)))
      else - 1)"

text \<open>The slice \<open>s[a:b]\<close> for \<open>0 \<le> a\<close> and \<open>0 \<le> b\<close> (the only use in the program).\<close>

definition py_slice :: "'a list \<Rightarrow> int \<Rightarrow> int \<Rightarrow> 'a list" where
  "py_slice s a b = take (nat b - nat a) (drop (nat a) s)"

text \<open>The slice \<open>xs[-n:]\<close> and the slice \<open>xs[:n]\<close> for a positive literal \<open>n\<close>.\<close>

definition last_n :: "nat \<Rightarrow> 'a list \<Rightarrow> 'a list" where
  "last_n n xs = drop (length xs - n) xs"

definition first_n :: "nat \<Rightarrow> 'a list \<Rightarrow> 'a list" where
  "first_n n xs = take n xs"

subsection \<open>Floats\<close>

text \<open>
  A Python \<open>float\<close> is an IEEE 754 double: a finite value, an infinity or NaN. \<open>Fin r\<close> is
  the finite double of value \<open>r\<close>. The comparisons are exact on the values (every
  comparison with NaN is false), and \<open>min\<close> and \<open>max\<close> are the builtins: \<open>min(a, b)\<close> is
  \<open>b\<close> when \<open>b < a\<close> and \<open>a\<close> otherwise, \<open>max(a, b)\<close> is \<open>b\<close> when \<open>b > a\<close> and \<open>a\<close>
  otherwise.

  The subtraction rounds as the machine does. \<open>round_double x\<close> is the double nearest
  to the real \<open>x\<close>, ties going to the even significand: with \<open>e\<close> the binary exponent of
  \<open>x\<close> (not below -1022, where the subnormal numbers begin) the doubles around \<open>x\<close> are
  the multiples of \<open>2 ^ (e - 52)\<close>, and a result of magnitude \<open>2 ^ 1024\<close> or more is an
  infinity. It is also the double that a decimal literal of the source denotes: the
  literal \<open>0.9\<close> is \<open>round_double 0.9\<close>, of value \<open>8106479329266893 / 2 ^ 53\<close>. The sign
  of zero is not modelled. In the router the confidences \<open>0.5 + 0.1 * score\<close>, which
  take the values 0.6, 0.7 and 0.8 in the program as well, are written as these decimal
  numbers.
\<close>

datatype pyfloat = Fin real | PosInf | NegInf | NaN

definition round_half_even :: "real \<Rightarrow> int" where
  "round_half_even x =
     (let f = \<lfloor>x\<rfloor>
      in if x - of_int f < 1 / 2 then f
         else if x - of_int f > 1 / 2 then f + 1
         else if even f then f else f + 1)"

definition round_double :: "real \<Rightarrow> pyfloat" where
  "round_double x =
     (if x = 0 then Fin 0
      else
        (let e = max \<lfloor>log 2 \<bar>x\<bar>\<rfloor> (- 1022);
             ulp = 2 powr of_int (e - 52);
             y = of_int (round_half_even (x / ulp)) * ulp
         in if \<bar>y\<bar> \<ge> 2 ^ 1024 then (if x > 0 then PosInf else NegInf) else Fin y))"

fun fl_lt :: "pyfloat \<Rightarrow> pyfloat \<Rightarrow> bool" where
  "fl_lt (Fin a) (Fin b) = (a < b)"
| "fl_lt NaN y = False"
| "fl_lt x NaN = False"
| "fl_lt x NegInf = False"
| "fl_lt NegInf y = True"
| "fl_lt PosInf y = False"
| "fl_lt (Fin a) PosInf = True"

definition fl_le :: "pyfloat \<Rightarrow> pyfloat \<Rightarrow> bool" where
  "fl_le x y = (x \<noteq> NaN \<and> y \<noteq> NaN \<and> (fl_lt x y \<or> x = y))"

fun fl_sub :: "pyfloat \<Rightarrow> pyfloat \<Rightarrow> pyfloat" where
  "fl_sub (Fin a) (Fin b) = round_double (a - b)"
| "fl_sub NaN y = NaN"
| "fl_sub x NaN = NaN"
| "fl_sub (Fin a) PosInf = NegInf"
| "fl_sub (Fin a) NegInf = PosInf"
| "fl_sub PosInf PosInf = NaN"
| "fl_sub PosInf y = PosInf"
| "fl_sub NegInf NegInf = NaN"
| "fl_sub NegInf y = NegInf"

definition py_min :: "pyfloat \<Rightarrow> pyfloat \<Rightarrow> pyfloat" where
  "py_min a b = (if fl_lt b a then b else a)"

definition py_max :: "pyfloat \<Rightarrow> pyfloat \<Rightarrow> pyfloat" where
  "py_max a b = (if fl_lt a b then b else a)"

text \<open>The closed unit interval: a finite float between 0 and 1.\<close>

definition in_unit :: "pyfloat \<Rightarrow> bool" where
  "in_unit x = (case x of Fin r \<Rightarrow> 0 \<le> r \<and> r \<le> 1 | PosInf \<Rightarrow> False | NegInf \<Rightarrow> False | NaN \<Rightarrow> False)"

subsection \<open>Exceptions and JSON values\<close>

text \<open>
  The exceptions the program meets; all of them are subclasses of \<open>Exception\<close>, so an
  \<open>except Exception\<close> handler catches each. \<open>ProviderError\<close> stands for whatever an
  external service (completion, embedding, vector store, file system) raises.
\<close>

datatype exn =
    JSONDecodeError | AttributeError | TypeError | ValueError | OverflowError
  | IndexError | KeyError | ValidationError | ProviderError string

text \<open>What \<open>json.loads\<close> returns. A dictionary is the list of its items.\<close>

datatype json =
    JNull | JBool bool | JInt int | JFloat pyfloat | JStr string
  | JList "json list" | JDict "(string \<times> json) list"

text \<open>\<open>d.get(key, default)\<close>; on anything but a dictionary the attribute is missing.\<close>

definition dict_get :: "json \<Rightarrow> string \<Rightarrow> json \<Rightarrow> exn + json" where
  "dict_get d k dflt =
     (case d of
        JDict items \<Rightarrow> (case map_of items k of Some v \<Rightarrow> Inr v | None \<Rightarrow> Inr dflt)
      | JNull \<Rightarrow> Inl AttributeError | JBool b \<Rightarrow> Inl AttributeError
      | JInt i \<Rightarrow> Inl AttributeError | JFloat f \<Rightarrow> Inl AttributeError
      | JStr s \<Rightarrow> Inl AttributeError | JList l \<Rightarrow> Inl AttributeError)"

text \<open>
  \<open>float(v)\<close>. An integer too large for a double raises \<open>OverflowError\<close>; the text of a
  string is parsed by the library (\<open>float_of_str\<close>, \<open>None\<close> for \<open>ValueError\<close>); \<open>None\<close>,
  lists and dictionaries raise \<open>TypeError\<close>.
\<close>

definition py_float :: "(string \<Rightarrow> pyfloat option) \<Rightarrow> json \<Rightarrow> exn + pyfloat" where
  "py_float float_of_str v =
     (case v of
        JFloat f \<Rightarrow> Inr f
      | JInt i \<Rightarrow> if \<bar>i\<bar> < 2 ^ 1024 - 2 ^ 970 then Inr (Fin (real_of_int i)) else Inl OverflowError
      | JBool b \<Rightarrow> Inr (Fin (if b then 1 else 0))
      | JStr s \<Rightarrow> (case float_of_str s of Some f \<Rightarrow> Inr f | None \<Rightarrow> Inl ValueError)
      | JNull \<Rightarrow> Inl TypeError | JList l \<Rightarrow> Inl TypeError | JDict d \<Rightarrow> Inl TypeError)"

section \<open>External services\<close>

text \<open>
  The chat models take a list of role-tagged messages. Each agent owns one client.
\<close>

datatype lc_message = SystemMessage string | HumanMessage string

datatype agent = Orchestrator | TravelSupport | BookingPayments | Policy

text \<open>
  A retrieved document: the dictionary with keys \<open>content\<close>, \<open>metadata\<close> and, when
  present, \<open>distance\<close> and \<open>similarity\<close>.
\<close>

record document =
  content :: string
  metadata :: "(string \<times> string) list"
  distance :: "pyfloat option"
  similarity :: "pyfloat option"

text \<open>
  The answer of the vector store's \<open>collection.query\<close>: the keys \<open>documents\<close>,
  \<open>metadatas\<close> and \<open>distances\<close>, each a list of lists (one inner list per query
  embedding) or \<open>None\<close>.
\<close>

record query_result =
  qr_documents :: "string list list option"
  qr_metadatas :: "(string \<times> string) list list list option"
  qr_distances :: "pyfloat list list option"

text \<open>The policy directory on disk: absent, or the \<open>*.txt\<close> files, each readable or not.\<close>

datatype data_directory = NoDirectory | Directory "(exn + string) list"

text \<open>
  Everything outside the program, as the program sees it. A service answers or raises.
  \<open>llm a msgs\<close> is the text of the completion (\<open>response.content\<close>) of agent \<open>a\<close>'s client;
  a completion whose content is not text makes the program raise \<open>AttributeError\<close> at
  the same place, inside the same handler, and is therefore one of the raising cases.
  \<open>strict_model\<close> and \<open>coerce_str\<close> are the two things the validation of the routing
  decision's model class may do (see below).
\<close>

record services =
  llm :: "agent \<Rightarrow> lc_message list \<Rightarrow> exn + string"
  json_loads :: "string \<Rightarrow> exn + json"
  float_of_str :: "string \<Rightarrow> pyfloat option"
  strict_model :: bool
  coerce_str :: "json \<Rightarrow> string option"
  embed_query :: "string \<Rightarrow> exn + real list"
  collection_query :: "real list \<Rightarrow> int \<Rightarrow> (string \<times> string) list \<Rightarrow> exn + query_result"
  data_dir :: data_directory
  re_sub_markers :: "string \<Rightarrow> string"

section \<open>The orchestrator: \<open>agents/orchestrator.py\<close>\<close>

record agent_routing_decision =
  agent_type :: string
  confidence :: pyfloat
  reasoning :: string

definition agent_types :: "string list" where
  "agent_types = [''travel_support'', ''booking_payments'', ''policy'']"

text \<open>
  Modelled from the spec: the class \<open>AgentRoutingDecision\<close> of \<open>app/models/state.py\<close>,
  which is not among the sources. The spec gives its fields (category, confidence,
  reasoning) and its invariant (the category is one of the three, the confidence is in
  the unit interval). Whether the class checks the invariant when an instance is
  built is not visible, so it is the parameter \<open>strict_model\<close>; a reasoning that is not
  text is converted or refused by \<open>coerce_str\<close>.
\<close>

definition AgentRoutingDecision ::
  "services \<Rightarrow> string \<Rightarrow> pyfloat \<Rightarrow> json \<Rightarrow> exn + agent_routing_decision" where
  "AgentRoutingDecision S a c r =
     (case (case r of JStr s \<Rightarrow> Some s | JNull \<Rightarrow> coerce_str S r | JBool b \<Rightarrow> coerce_str S r
                    | JInt i \<Rightarrow> coerce_str S r | JFloat f \<Rightarrow> coerce_str S r
                    | JList l \<Rightarrow> coerce_str S r | JDict d \<Rightarrow> coerce_str S r) of
        None \<Rightarrow> Inl ValidationError
      | Some s \<Rightarrow>
          if strict_model S \<and> \<not> (a \<in> set agent_types \<and> in_unit c) then Inl ValidationError
          else Inr \<lparr>agent_type = a, confidence = c, reasoning = s\<rparr>)"

subsection \<open>\<open>_fallback_routing\<close>\<close>

definition booking_keywords :: "string list" where
  "booking_keywords =
     [''price'', ''cost'', ''payment'', ''invoice'', ''booking'', ''package'',
      ''how much'', ''pricing'', ''pay'', ''refund'', ''charge'']"

definition policy_keywords :: "string list" where
  "policy_keywords =
     [''policy'', ''cancel'', ''cancellation'', ''terms'', ''insurance'',
      ''baggage'', ''refund policy'', ''tos'', ''terms of service'']"

text \<open>\<open>sum(1 for kw in keywords if kw in query_lower)\<close>\<close>

definition keyword_score :: "string list \<Rightarrow> string \<Rightarrow> int" where
  "keyword_score keywords query_lower =
     sum_list (map (\<lambda>kw. 1) (filter (\<lambda>kw. py_in kw query_lower) keywords))"

definition fallback_routing :: "services \<Rightarrow> string \<Rightarrow> exn + agent_routing_decision" where
  "fallback_routing S query =
     (let query_lower = py_lower query;
          booking_score = keyword_score booking_keywords query_lower;
          policy_score = keyword_score policy_keywords query_lower
      in if booking_score > policy_score \<and> booking_score > 0 then
           AgentRoutingDecision S ''booking_payments''
             (py_min (Fin 0.8) (Fin (0.5 + real_of_int booking_score * 0.1)))
             (JStr ''Matched booking/payment keywords'')
         else if policy_score > 0 then
           AgentRoutingDecision S ''policy''
             (py_min (Fin 0.8) (Fin (0.5 + real_of_int policy_score * 0.1)))
             (JStr ''Matched policy keywords'')
         else
           AgentRoutingDecision S ''travel_support'' (Fin 0.6)
             (JStr ''Default fallback to travel support''))"

subsection \<open>\<open>route_query\<close>\<close>

definition orchestrator_system_prompt :: string where
  "orchestrator_system_prompt =
     ''You are a routing agent for a travel agency customer service system.\<newline>'' @
     ''Your job is to analyze customer queries and route them to the most appropriate specialized agent.\<newline>'' @
     ''\<newline>'' @
     ''Available agents:\<newline>'' @
     ''1. travel_support - Handles questions about destinations, travel tips, itineraries, general travel advice\<newline>'' @
     ''2. booking_payments - Handles questions about pricing, packages, payments, invoices, booking costs\<newline>'' @
     ''3. policy - Handles questions about cancellation policies, refunds, terms of service, travel insurance, baggage policies\<newline>'' @
     ''\<newline>'' @
     ''Analyze the query and respond with ONLY a JSON object in this exact format:\<newline>'' @
     ''{\<newline>'' @
     ''    \"agent_type\": \"travel_support\" | \"booking_payments\" | \"policy\",\<newline>'' @
     ''    \"confidence\": 0.0-1.0,\<newline>'' @
     ''    \"reasoning\": \"brief explanation\"\<newline>'' @
     ''}\<newline>'' @
     ''\<newline>'' @
     ''Be precise and choose the most appropriate agent based on the query's primary concern.''"

text \<open>
  Lines 76-87: strip the reply, take the span from the first \<open>{\<close> to the last \<open>}\<close> and
  parse it; without such a span parse the whole reply.
\<close>

definition extract_json :: "services \<Rightarrow> string \<Rightarrow> exn + json" where
  "extract_json S reply =
     (let response_text = py_strip reply;
          json_start = py_find response_text CHR ''{'';
          json_end = py_rfind response_text CHR ''}'' + 1
      in if json_start \<ge> 0 \<and> json_end > json_start
         then json_loads S (py_slice response_text json_start json_end)
         else json_loads S response_text)"

text \<open>Lines 90-93: an agent type outside the three known ones becomes \<open>travel_support\<close>.\<close>

definition validate_agent_type :: "json \<Rightarrow> string" where
  "validate_agent_type v =
     (case v of
        JStr s \<Rightarrow> if s \<in> set agent_types then s else ''travel_support''
      | JNull \<Rightarrow> ''travel_support'' | JBool b \<Rightarrow> ''travel_support''
      | JInt i \<Rightarrow> ''travel_support'' | JFloat f \<Rightarrow> ''travel_support''
      | JList l \<Rightarrow> ''travel_support'' | JDict d \<Rightarrow> ''travel_support'')"

text \<open>Line 96: \<open>max(0.0, min(1.0, confidence))\<close>.\<close>

definition clamp_confidence :: "pyfloat \<Rightarrow> pyfloat" where
  "clamp_confidence c = py_max (Fin 0) (py_min (Fin 1) c)"

text \<open>Lines 89-104: the decision built from the parsed reply.\<close>

definition decision_of_data :: "services \<Rightarrow> json \<Rightarrow> exn + agent_routing_decision" where
  "decision_of_data S routing_data =
     (case dict_get routing_data ''agent_type'' (JStr ''travel_support'') of
        Inl e \<Rightarrow> Inl e
      | Inr a \<Rightarrow>
          (case dict_get routing_data ''confidence'' (JFloat (Fin 0.7)) of
             Inl e \<Rightarrow> Inl e
           | Inr cv \<Rightarrow>
               (case py_float (float_of_str S) cv of
                  Inl e \<Rightarrow> Inl e
                | Inr c \<Rightarrow>
                    (case dict_get routing_data ''reasoning'' (JStr ''No reasoning provided'') of
                       Inl e \<Rightarrow> Inl e
                     | Inr r \<Rightarrow>
                         AgentRoutingDecision S (validate_agent_type a) (clamp_confidence c) r))))"

text \<open>The body of the \<open>try\<close> block, lines 70-109.\<close>

definition route_query_try :: "services \<Rightarrow> string \<Rightarrow> exn + agent_routing_decision" where
  "route_query_try S query =
     (case llm S Orchestrator
             [SystemMessage orchestrator_system_prompt,
              HumanMessage (''Route this query: '' @ query)] of
        Inl e \<Rightarrow> Inl e
      | Inr reply \<Rightarrow>
          (case extract_json S reply of
             Inl e \<Rightarrow> Inl e
           | Inr routing_data \<Rightarrow> decision_of_data S routing_data))"

text \<open>Both handlers (\<open>JSONDecodeError\<close> and \<open>Exception\<close>) return the keyword fallback.\<close>

definition route_query :: "services \<Rightarrow> string \<Rightarrow> exn + agent_routing_decision" where
  "route_query S query =
     (case route_query_try S query of
        Inr decision \<Rightarrow> Inr decision
      | Inl e \<Rightarrow> fallback_routing S query)"

section \<open>Semantic retrieval: \<open>retrieval/rag.py\<close>\<close>

text \<open>
  The program's calls to the services outside it are recorded, in order, in a trace that
  the model threads through every function that can reach a service. The trace is not
  part of the program: it makes "this service was (not) invoked" a statement about
  the result.
\<close>

datatype call =
    EmbedQuery string
  | CollectionQuery "real list" int "(string \<times> string) list"
  | LlmInvoke agent "lc_message list"

text \<open>\<open>xs[i]\<close> for \<open>i \<ge> 0\<close>; out of range raises \<open>IndexError\<close>.\<close>

definition py_index :: "'a list \<Rightarrow> nat \<Rightarrow> exn + 'a" where
  "py_index xs i = (if i < length xs then Inr (xs ! i) else Inl IndexError)"

text \<open>
  Lines 87-95 of \<open>retrieve\<close>: the \<open>i\<close>-th result as a document. The metadata is
  \<open>results["metadatas"][0][i]\<close> when \<open>results["metadatas"]\<close> is neither \<open>None\<close> nor empty;
  the distance is attached when \<open>results["distances"]\<close> and its first list are not empty.
\<close>

definition format_doc :: "query_result \<Rightarrow> string \<Rightarrow> nat \<Rightarrow> exn + document" where
  "format_doc results txt i =
     (case (case qr_metadatas results of
              None \<Rightarrow> Inr []
            | Some [] \<Rightarrow> Inr []
            | Some (m # ms) \<Rightarrow> py_index m i) of
        Inl e \<Rightarrow> Inl e
      | Inr md \<Rightarrow>
          (case (case qr_distances results of
                   None \<Rightarrow> Inr None
                 | Some [] \<Rightarrow> Inr None
                 | Some (d # ds) \<Rightarrow>
                     if d = [] then Inr None
                     else (case py_index d i of Inl e \<Rightarrow> Inl e | Inr x \<Rightarrow> Inr (Some x))) of
             Inl e \<Rightarrow> Inl e
           | Inr dv \<Rightarrow>
               Inr \<lparr>content = txt, metadata = md, distance = dv, similarity = None\<rparr>))"

text \<open>The loop over \<open>range(len(results["documents"][0]))\<close>; an exception ends it.\<close>

fun format_docs :: "query_result \<Rightarrow> string list \<Rightarrow> nat \<Rightarrow> exn + document list" where
  "format_docs results [] i = Inr []"
| "format_docs results (txt # txts) i =
     (case format_doc results txt i of
        Inl e \<Rightarrow> Inl e
      | Inr doc \<Rightarrow>
          (case format_docs results txts (Suc i) of
             Inl e \<Rightarrow> Inl e
           | Inr docs \<Rightarrow> Inr (doc # docs)))"

definition format_results :: "query_result \<Rightarrow> exn + document list" where
  "format_results results =
     (case qr_documents results of
        None \<Rightarrow> Inr []
      | Some [] \<Rightarrow> Inr []
      | Some (first # rest) \<Rightarrow> format_docs results first 0)"

text \<open>
  \<open>RAGRetriever.retrieve\<close>. The \<open>where\<close> clause is \<open>{"agent_type": agent_type}\<close> updated
  with the caller's filter (a lookup in the list of items finds the caller's entry
  first). Every exception of the body returns the empty list.
\<close>

definition rag_retrieve ::
  "services \<Rightarrow> string \<Rightarrow> string \<Rightarrow> int \<Rightarrow> (string \<times> string) list option \<Rightarrow> call list
     \<Rightarrow> document list \<times> call list" where
  "rag_retrieve S query agent_ty top_k filter_metadata trace =
     (case embed_query S query of
        Inl e \<Rightarrow> ([], trace @ [EmbedQuery query])
      | Inr query_embedding \<Rightarrow>
          (let where_clause =
                 (case filter_metadata of
                    None \<Rightarrow> [(''agent_type'', agent_ty)]
                  | Some f \<Rightarrow> f @ [(''agent_type'', agent_ty)]);
               trace' = trace @ [EmbedQuery query, CollectionQuery query_embedding top_k where_clause]
           in case collection_query S query_embedding top_k where_clause of
                Inl e \<Rightarrow> ([], trace')
              | Inr results \<Rightarrow>
                  (case format_results results of
                     Inl e \<Rightarrow> ([], trace')
                   | Inr documents \<Rightarrow> (documents, trace'))))"

text \<open>
  \<open>retrieve_with_scores\<close>, lines 127-136: the loop that turns each distance into a
  similarity and keeps the documents at or above the threshold.
\<close>

fun filter_by_score :: "pyfloat \<Rightarrow> document list \<Rightarrow> document list" where
  "filter_by_score score_threshold [] = []"
| "filter_by_score score_threshold (doc # docs) =
     (let d1 = (case distance doc of Some d \<Rightarrow> d | None \<Rightarrow> Fin 1);
          s1 = (if fl_le d1 (Fin 1) then fl_sub (Fin 1) d1 else Fin 0)
      in if fl_le score_threshold s1
         then doc\<lparr>similarity := Some s1\<rparr> # filter_by_score score_threshold docs
         else filter_by_score score_threshold docs)"

definition retrieve_with_scores ::
  "services \<Rightarrow> string \<Rightarrow> string \<Rightarrow> int \<Rightarrow> pyfloat \<Rightarrow> call list \<Rightarrow> document list \<times> call list" where
  "retrieve_with_scores S query agent_ty top_k score_threshold trace =
     (case rag_retrieve S query agent_ty top_k None trace of
        (documents, trace') \<Rightarrow> (filter_by_score score_threshold documents, trace'))"

section \<open>The static document cache: \<open>retrieval/cag.py\<close>\<close>

text \<open>
  The retriever's state is its dictionary \<open>cached_documents\<close>. \<open>loads\<close> is not part of
  the program: it lists, in order, the arguments of the calls of \<open>load_documents\<close> this
  instance has made (the load-call counter of the tests).
\<close>

record cag_state =
  cached_documents :: "string \<rightharpoonup> string list"
  loads :: "string list"

definition new_cag :: cag_state where
  "new_cag = \<lparr>cached_documents = Map.empty, loads = []\<rparr>"

text \<open>
  \<open>load_documents\<close>: a file that cannot be read is skipped; the regular-expression
  substitution that removes the metadata markers is the library's (\<open>re_sub_markers\<close>).
  The argument \<open>agent_type\<close> is only logged by the source.
\<close>

fun read_files :: "services \<Rightarrow> (exn + string) list \<Rightarrow> string list" where
  "read_files S [] = []"
| "read_files S (Inl e # files) = read_files S files"
| "read_files S (Inr file_content # files) =
     py_strip (re_sub_markers S file_content) # read_files S files"

definition load_documents :: "services \<Rightarrow> string \<Rightarrow> string list" where
  "load_documents S agent_ty =
     (case data_dir S of NoDirectory \<Rightarrow> [] | Directory text_files \<Rightarrow> read_files S text_files)"

definition cache_documents :: "services \<Rightarrow> string \<Rightarrow> cag_state \<Rightarrow> cag_state" where
  "cache_documents S agent_ty c =
     (case cached_documents c agent_ty of
        None \<Rightarrow>
          c\<lparr>cached_documents := (cached_documents c)(agent_ty \<mapsto> load_documents S agent_ty),
            loads := loads c @ [agent_ty]\<rparr>
      | Some docs \<Rightarrow> c)"

definition get_cached_documents ::
  "services \<Rightarrow> string \<Rightarrow> cag_state \<Rightarrow> string list \<times> cag_state" where
  "get_cached_documents S agent_ty c =
     (let c' = (case cached_documents c agent_ty of
                  None \<Rightarrow> cache_documents S agent_ty c
                | Some docs \<Rightarrow> c)
      in (case cached_documents c' agent_ty of Some docs \<Rightarrow> docs | None \<Rightarrow> [], c'))"

text \<open>Lines 116-124 of \<open>search_cached\<close>: the documents that contain some query term.\<close>

definition matching_docs :: "string \<Rightarrow> bool \<Rightarrow> string list \<Rightarrow> string list" where
  "matching_docs query case_sensitive documents =
     (let query_terms = (if \<not> case_sensitive then py_split (py_lower query) else py_split query)
      in filter
           (\<lambda>doc. list_ex (\<lambda>t. py_in t (if case_sensitive then doc else py_lower doc)) query_terms)
           documents)"

definition search_cached ::
  "services \<Rightarrow> string \<Rightarrow> string \<Rightarrow> bool \<Rightarrow> cag_state \<Rightarrow> string list \<times> cag_state" where
  "search_cached S query agent_ty case_sensitive c =
     (case get_cached_documents S agent_ty c of
        (documents, c') \<Rightarrow> (matching_docs query case_sensitive documents, c'))"

section \<open>The hybrid retriever: \<open>retrieval/hybrid.py\<close>\<close>

record hybrid_state =
  cag_retriever :: cag_state
  static_policy_cache :: "string list"
  cache_initialized :: bool

definition new_hybrid :: hybrid_state where
  "new_hybrid = \<lparr>cag_retriever = new_cag, static_policy_cache = [], cache_initialized = False\<rparr>"

text \<open>The list \<open>policy_keywords\<close> of \<open>initialize_cache\<close>.\<close>

definition relevant_policy_keywords :: "string list" where
  "relevant_policy_keywords = [''payment'', ''cancellation'', ''refund'', ''booking'', ''terms'']"

definition initialize_cache :: "services \<Rightarrow> string \<Rightarrow> hybrid_state \<Rightarrow> hybrid_state" where
  "initialize_cache S agent_ty h =
     (if \<not> cache_initialized h then
        (case get_cached_documents S ''policy'' (cache_documents S ''policy'' (cag_retriever h)) of
           (policy_docs, c) \<Rightarrow>
             h\<lparr>cag_retriever := c,
               static_policy_cache :=
                 filter (\<lambda>doc. list_ex (\<lambda>keyword. py_in keyword (py_lower doc))
                                  relevant_policy_keywords)
                        policy_docs,
               cache_initialized := True\<rparr>)
      else h)"

record hybrid_result =
  dynamic :: "document list"
  static :: "document list"

text \<open>Lines 122-129 of \<open>retrieve\<close>: a cached policy text as a document.\<close>

definition static_doc :: "string \<Rightarrow> document" where
  "static_doc policy_doc =
     \<lparr>content = policy_doc,
      metadata = [(''agent_type'', ''policy''), (''document_type'', ''static_policy''),
                  (''source'', ''cached'')],
      distance = None, similarity = None\<rparr>"

text \<open>
  \<open>HybridRetriever.retrieve\<close>. The semantic retriever returns a list whatever
  happens, so the handler around its call is never entered.
\<close>

definition hybrid_retrieve ::
  "services \<Rightarrow> string \<Rightarrow> string \<Rightarrow> int \<Rightarrow> bool \<Rightarrow> hybrid_state \<Rightarrow> call list
     \<Rightarrow> hybrid_result \<times> hybrid_state \<times> call list" where
  "hybrid_retrieve S query agent_ty top_k include_static h trace =
     (let h1 = (if \<not> cache_initialized h then initialize_cache S agent_ty h else h)
      in case rag_retrieve S query agent_ty top_k None trace of
           (dynamic_docs, trace') \<Rightarrow>
             if include_static then
               (case search_cached S query ''policy'' False (cag_retriever h1) of
                  (matching_policies, c) \<Rightarrow>
                    (\<lparr>dynamic = dynamic_docs,
                      static = map static_doc (first_n 3 matching_policies)\<rparr>,
                     h1\<lparr>cag_retriever := c\<rparr>, trace'))
             else (\<lparr>dynamic = dynamic_docs, static = []\<rparr>, h1, trace'))"

text \<open>
  \<open>get_static_policies\<close>: the one reader of \<open>static_policy_cache\<close>. It initialises the
  retriever with the default agent type when that has not happened and returns a copy
  of the filtered list.
\<close>

definition get_static_policies :: "services \<Rightarrow> hybrid_state \<Rightarrow> string list \<times> hybrid_state" where
  "get_static_policies S h =
     (let h1 = (if \<not> cache_initialized h then initialize_cache S ''booking_payments'' h else h)
      in (static_policy_cache h1, h1))"

section \<open>The answering agents: \<open>agents/travel_support.py\<close>, \<open>booking.py\<close>, \<open>policy.py\<close>\<close>

subsection \<open>Formatting\<close>

text \<open>\<open>str(i)\<close> for \<open>i \<ge> 0\<close>, \<open>sep.join(parts)\<close> and \<open>enumerate(xs, 1)\<close>.\<close>

fun str_nat :: "nat \<Rightarrow> string" where
  "str_nat n =
     (if n < 10 then [char_of (48 + n)] else str_nat (n div 10) @ [char_of (48 + n mod 10)])"

declare str_nat.simps [simp del]

fun py_join :: "string \<Rightarrow> string list \<Rightarrow> string" where
  "py_join sep [] = []"
| "py_join sep [x] = x"
| "py_join sep (x # y # ys) = x @ sep @ py_join sep (y # ys)"

definition enumerate1 :: "'a list \<Rightarrow> (nat \<times> 'a) list" where
  "enumerate1 xs = zip [1 ..< Suc (length xs)] xs"

subsection \<open>The part the three agents share\<close>

text \<open>
  The three \<open>generate_response\<close> methods end with the same \<open>try\<close> block. Its first
  half builds the messages: the system prompt, then the entries of
  \<open>conversation_history[-4:]\<close> whose role is \<open>user\<close>, then the user prompt. An entry of
  the history is the pair of its role and its content.
\<close>

definition history_messages :: "(string \<times> string) list \<Rightarrow> lc_message list" where
  "history_messages conversation_history =
     map (\<lambda>(role, c). HumanMessage c)
       (filter (\<lambda>(role, c). role = ''user'') (last_n 4 conversation_history))"

definition prompt_messages ::
  "string \<Rightarrow> (string \<times> string) list \<Rightarrow> string \<Rightarrow> lc_message list" where
  "prompt_messages system_prompt conversation_history user_prompt =
     SystemMessage system_prompt # history_messages conversation_history
       @ [HumanMessage user_prompt]"

definition empty_response_apology :: string where
  "empty_response_apology =
     ''I apologize, but I couldn't generate a response. Please try again or contact customer support.''"

definition generation_error_apology :: string where
  "generation_error_apology =
     ''I apologize, but I encountered an error while generating a response. Please try again or contact customer support.''"

text \<open>
  Its second half invokes the model, strips the completion, replaces an empty one by
  an apology and turns every exception into an apology. The invocation is recorded.
\<close>

definition invoke_model ::
  "services \<Rightarrow> agent \<Rightarrow> lc_message list \<Rightarrow> call list \<Rightarrow> string \<times> call list" where
  "invoke_model S a msgs trace =
     ((case llm S a msgs of
         Inl e \<Rightarrow> generation_error_apology
       | Inr c \<Rightarrow>
           (let response_content = (if c \<noteq> [] then py_strip c else [])
            in if response_content = [] then empty_response_apology else response_content)),
      trace @ [LlmInvoke a msgs])"

subsection \<open>The state the agents keep between requests\<close>

text \<open>
  The policy agent owns a static cache, the booking agent a hybrid retriever (with a
  static cache of its own); the travel support agent's semantic retriever has no state.
  \<open>calls\<close> is the record of the calls to the embedding service, the vector store and
  the chat models. \<open>new_world\<close> is the state after the constructors have run: the
  policy agent caches \<open>policy\<close>, the booking agent initialises its retriever.
\<close>

record world =
  policy_retriever :: cag_state
  booking_retriever :: hybrid_state
  calls :: "call list"

definition new_world :: "services \<Rightarrow> world" where
  "new_world S =
     \<lparr>policy_retriever = cache_documents S ''policy'' new_cag,
      booking_retriever = initialize_cache S ''booking_payments'' new_hybrid,
      calls = []\<rparr>"

subsection \<open>Travel support: semantic retrieval only\<close>

definition travel_system_prompt :: string where
  "travel_system_prompt =
     ''You are a helpful travel support agent for a travel agency.\<newline>'' @
     ''Your role is to provide accurate, friendly, and helpful information about travel destinations,\<newline>'' @
     ''itineraries, travel tips, and general travel advice.\<newline>'' @
     ''\<newline>'' @
     ''Use the provided context documents to answer questions accurately. If the context doesn't contain\<newline>'' @
     ''enough information to fully answer the question, say so and provide what information you can.\<newline>'' @
     ''\<newline>'' @
     ''IMPORTANT FORMATTING GUIDELINES:\<newline>'' @
     ''- Keep responses concise and well-structured\<newline>'' @
     ''- Use bullet points (-) or numbered lists (1., 2., 3.) for multiple items\<newline>'' @
     ''- Use bold text (**text**) for emphasis on important terms like dates, prices, or key information\<newline>'' @
     ''- Use section headings (### Heading) to organize content into clear sections\<newline>'' @
     ''- Break long responses into clear sections with line breaks between sections\<newline>'' @
     ''- When asking follow-up questions, format them as a simple numbered or bulleted list\<newline>'' @
     ''- Keep paragraphs to 2-3 sentences maximum\<newline>'' @
     ''- Ensure proper spacing: leave blank lines between major sections\<newline>'' @
     ''\<newline>'' @
     ''Always be friendly, professional, and helpful. Provide practical, actionable advice.''"

definition travel_user_prompt :: "document list \<Rightarrow> string \<Rightarrow> string" where
  "travel_user_prompt retrieved_docs query =
     (let context_parts =
            map (\<lambda>(i, doc).
                   ''[Document '' @ str_nat i @ '' from '' @
                   (case map_of (metadata doc) ''source_file'' of
                      Some source \<Rightarrow> source | None \<Rightarrow> ''unknown'') @
                   '']\<newline>'' @ content doc @ ''\<newline>'')
                (enumerate1 retrieved_docs);
          context_text = py_join ''\<newline>---\<newline>'' context_parts
      in ''Context from knowledge base:\<newline>'' @
         context_text @ ''\<newline>'' @
         ''\<newline>'' @
         ''User question: '' @ query @ ''\<newline>'' @
         ''\<newline>'' @
         ''Provide a helpful, concise, and well-structured response based on the context above. \<newline>'' @
         ''If the context doesn't fully answer the question, acknowledge this and provide the best answer you can.\<newline>'' @
         ''Format your response clearly with appropriate structure (bullets, sections, etc.) for easy reading.'')"

text \<open>Lines 55-113: retrieval and the messages for the model.\<close>

definition travel_messages ::
  "services \<Rightarrow> string \<Rightarrow> (string \<times> string) list \<Rightarrow> int \<Rightarrow> world \<Rightarrow> lc_message list \<times> world" where
  "travel_messages S query conversation_history top_k w =
     (case rag_retrieve S query ''travel_support'' top_k None (calls w) of
        (retrieved_docs, trace) \<Rightarrow>
          (prompt_messages travel_system_prompt conversation_history
             (travel_user_prompt retrieved_docs query),
           w\<lparr>calls := trace\<rparr>))"

definition travel_generate_response ::
  "services \<Rightarrow> string \<Rightarrow> (string \<times> string) list \<Rightarrow> int \<Rightarrow> world \<Rightarrow> exn + string \<times> world" where
  "travel_generate_response S query conversation_history top_k w =
     (case travel_messages S query conversation_history top_k w of
        (msgs, w1) \<Rightarrow>
          (case invoke_model S TravelSupport msgs (calls w1) of
             (answer, trace) \<Rightarrow> Inr (answer, w1\<lparr>calls := trace\<rparr>)))"

subsection \<open>Policy: static cache only\<close>

definition policy_system_prompt :: string where
  "policy_system_prompt =
     ''You are a policy and compliance specialist for a travel agency.\<newline>'' @
     ''Your role is to provide accurate information about:\<newline>'' @
     ''- Cancellation policies and refund terms\<newline>'' @
     ''- Terms of Service\<newline>'' @
     ''- Travel insurance policies\<newline>'' @
     ''- Baggage policies\<newline>'' @
     ''- Other policy-related questions\<newline>'' @
     ''\<newline>'' @
     ''Use the provided policy documents to answer questions accurately. Always be precise and reference\<newline>'' @
     ''specific policy terms when relevant. If a policy document doesn't contain information about a\<newline>'' @
     ''specific question, clearly state that.\<newline>'' @
     ''\<newline>'' @
     ''Be professional, clear, and ensure you're providing accurate policy information.''"

definition policy_user_prompt :: "string list \<Rightarrow> string \<Rightarrow> string" where
  "policy_user_prompt matching_policies query =
     (let context_parts =
            map (\<lambda>(i, policy_doc).
                   ''[Policy Document '' @ str_nat i @ '']\<newline>'' @ policy_doc @ ''\<newline>'')
                (enumerate1 (first_n 5 matching_policies));
          context_text = py_join ''\<newline>---\<newline>'' context_parts
      in ''Policy Documents:\<newline>'' @
         context_text @ ''\<newline>'' @
         ''\<newline>'' @
         ''User question: '' @ query @ ''\<newline>'' @
         ''\<newline>'' @
         ''Provide a precise response based on the policy documents above. Quote specific policy terms when relevant.'')"

text \<open>Lines 57-108: the search, the three cached documents when nothing matches.\<close>

definition policy_messages ::
  "services \<Rightarrow> string \<Rightarrow> (string \<times> string) list \<Rightarrow> int \<Rightarrow> world \<Rightarrow> lc_message list \<times> world" where
  "policy_messages S query conversation_history top_k w =
     (case search_cached S query ''policy'' False (policy_retriever w) of
        (found, c1) \<Rightarrow>
          (case (if found = []
                 then (case get_cached_documents S ''policy'' c1 of
                         (docs, c2) \<Rightarrow> (first_n 3 docs, c2))
                 else (found, c1)) of
             (matching_policies, c2) \<Rightarrow>
               (prompt_messages policy_system_prompt conversation_history
                  (policy_user_prompt matching_policies query),
                w\<lparr>policy_retriever := c2\<rparr>)))"

definition policy_generate_response ::
  "services \<Rightarrow> string \<Rightarrow> (string \<times> string) list \<Rightarrow> int \<Rightarrow> world \<Rightarrow> exn + string \<times> world" where
  "policy_generate_response S query conversation_history top_k w =
     (case policy_messages S query conversation_history top_k w of
        (msgs, w1) \<Rightarrow>
          (case invoke_model S Policy msgs (calls w1) of
             (answer, trace) \<Rightarrow> Inr (answer, w1\<lparr>calls := trace\<rparr>)))"

subsection \<open>Booking and payments: hybrid retrieval\<close>

definition booking_system_prompt :: string where
  "booking_system_prompt =
     ''You are a booking and payments specialist for a travel agency.\<newline>'' @
     ''Your role is to help customers with:\<newline>'' @
     ''- Package pricing and costs\<newline>'' @
     ''- Payment methods and processes\<newline>'' @
     ''- Booking information and invoices\<newline>'' @
     ''- Pricing details for flights, hotels, and packages\<newline>'' @
     ''\<newline>'' @
     ''Use the provided context documents (both dynamic pricing info and static policies) to answer\<newline>'' @
     ''questions accurately. Always reference specific pricing when available, and note that prices\<newline>'' @
     ''may vary based on dates, availability, and other factors.\<newline>'' @
     ''\<newline>'' @
     ''Be professional, clear, and helpful. When discussing pricing, be specific about what's included.''"

definition booking_user_prompt :: "document list \<Rightarrow> document list \<Rightarrow> string \<Rightarrow> string" where
  "booking_user_prompt dynamic_docs static_docs query =
     (let dynamic_context =
            py_join ''\<newline>---\<newline>''
              (map (\<lambda>(i, doc).
                      ''[Dynamic Info '' @ str_nat i @ '' from '' @
                      (case map_of (metadata doc) ''source_file'' of
                         Some source \<Rightarrow> source | None \<Rightarrow> ''unknown'') @
                      '']\<newline>'' @ content doc @ ''\<newline>'')
                   (enumerate1 dynamic_docs));
          static_context =
            py_join ''\<newline>---\<newline>''
              (map (\<lambda>(i, doc).
                      ''[Policy Information '' @ str_nat i @ '']\<newline>'' @ content doc @ ''\<newline>'')
                   (enumerate1 static_docs));
          user_prompt_parts =
            (if dynamic_context \<noteq> []
             then [''Dynamic Pricing/Booking Information:\<newline>'' @ dynamic_context] else []) @
            (if static_context \<noteq> []
             then [''Policy Information (Static):\<newline>'' @ static_context] else []) @
            (if dynamic_context = [] \<and> static_context = []
             then [''No specific information found in knowledge base.''] else []) @
            [''\<newline>User question: '' @ query,
             ''\<newline>Provide a helpful response based on the context above. '' @
             ''Combine dynamic pricing information with policy information as needed.'']
      in py_join ''\<newline>\<newline>'' user_prompt_parts)"

definition booking_messages ::
  "services \<Rightarrow> string \<Rightarrow> (string \<times> string) list \<Rightarrow> int \<Rightarrow> world \<Rightarrow> lc_message list \<times> world" where
  "booking_messages S query conversation_history top_k w =
     (case hybrid_retrieve S query ''booking_payments'' top_k True (booking_retriever w) (calls w) of
        (retrieval_results, hy, trace) \<Rightarrow>
          (prompt_messages booking_system_prompt conversation_history
             (booking_user_prompt (dynamic retrieval_results) (static retrieval_results) query),
           w\<lparr>booking_retriever := hy, calls := trace\<rparr>))"

definition booking_generate_response ::
  "services \<Rightarrow> string \<Rightarrow> (string \<times> string) list \<Rightarrow> int \<Rightarrow> world \<Rightarrow> exn + string \<times> world" where
  "booking_generate_response S query conversation_history top_k w =
     (case booking_messages S query conversation_history top_k w of
        (msgs, w1) \<Rightarrow>
          (case invoke_model S BookingPayments msgs (calls w1) of
             (answer, trace) \<Rightarrow> Inr (answer, w1\<lparr>calls := trace\<rparr>)))"

section \<open>The workflow: \<open>chains/graph.py\<close>\<close>

datatype MessageRole = USER | ASSISTANT | SYSTEM

fun role_value :: "MessageRole \<Rightarrow> string" where
  "role_value USER = ''user''"
| "role_value ASSISTANT = ''assistant''"
| "role_value SYSTEM = ''system''"

text \<open>
  An element of the state's message list is a \<open>Message\<close> (role, content, optional
  timestamp) or a dictionary with text values.
\<close>

datatype message = Message MessageRole string "string option" | DictMessage "(string \<times> string) list"

record graph_state =
  messages :: "message list"
  current_query :: "string option"
  routing_decision :: "agent_routing_decision option"
  retrieved_context :: "json option"
  cached_data :: "json option"
  session_id :: "string option"
  current_agent :: "string option"
  response :: "string option"

text \<open>The filter of \<open>entry_node\<close>: the messages written by the user.\<close>

definition is_user_message :: "message \<Rightarrow> bool" where
  "is_user_message msg =
     (case msg of
        Message r c t \<Rightarrow> r = USER
      | DictMessage d \<Rightarrow> map_of d ''role'' = Some ''user'')"

definition entry_node :: "graph_state \<Rightarrow> graph_state" where
  "entry_node state =
     (let user_messages = filter is_user_message (messages state)
      in if user_messages \<noteq> [] then
           state\<lparr>current_query :=
                   Some (case last user_messages of
                           Message r c t \<Rightarrow> c
                         | DictMessage d \<Rightarrow>
                             (case map_of d ''content'' of Some c \<Rightarrow> c | None \<Rightarrow> ''''))\<rparr>
         else state\<lparr>current_query := Some ''''\<rparr>)"

text \<open>
  \<open>orchestrator_node\<close>. \<open>route_query\<close> invokes the routing model once, with the two
  messages recorded here.
\<close>

definition orchestrator_node :: "services \<Rightarrow> graph_state \<times> world \<Rightarrow> graph_state \<times> world" where
  "orchestrator_node S sw =
     (case sw of (state, w) \<Rightarrow>
        (case current_query state of
           None \<Rightarrow> (state, w)
         | Some query \<Rightarrow>
             if query = [] then (state, w)
             else
               (let w' = w\<lparr>calls := calls w @
                            [LlmInvoke Orchestrator
                               [SystemMessage orchestrator_system_prompt,
                                HumanMessage (''Route this query: '' @ query)]]\<rparr>
                in case route_query S query of
                     Inr decision \<Rightarrow>
                       (state\<lparr>routing_decision := Some decision,
                              current_agent := Some (agent_type decision)\<rparr>, w')
                   | Inl e \<Rightarrow>
                       (state\<lparr>routing_decision :=
                                Some \<lparr>agent_type = ''travel_support'', confidence = Fin 0.5,
                                      reasoning = ''Fallback due to orchestrator error''\<rparr>,
                              current_agent := Some ''travel_support''\<rparr>, w'))))"

definition route_agent :: "graph_state \<Rightarrow> string" where
  "route_agent state =
     (case routing_decision state of
        None \<Rightarrow> ''travel_support''
      | Some decision \<Rightarrow> agent_type decision)"

text \<open>Lines 160-172: the messages as the dictionaries the agents expect.\<close>

definition convert_history :: "message list \<Rightarrow> (string \<times> string) list" where
  "convert_history msgs =
     map (\<lambda>msg. case msg of
                  Message r c t \<Rightarrow> (role_value r, c)
                | DictMessage d \<Rightarrow>
                    ((case map_of d ''role'' of Some r \<Rightarrow> r | None \<Rightarrow> ''user''),
                     (case map_of d ''content'' of Some c \<Rightarrow> c | None \<Rightarrow> '''')))
         msgs"

definition no_query_apology :: string where
  "no_query_apology = ''I apologize, but I couldn't process your query.''"

text \<open>
  The three agent nodes are one text with the agent and the wording of the last
  apology changed: without a query (\<open>None\<close> or the empty text) the apology goes into
  \<open>response\<close> and nothing else happens; otherwise the agent is called with the converted
  history, its answer goes into \<open>response\<close> and is appended to the messages as an
  assistant message; an exception of the agent puts the node's own apology into
  \<open>response\<close>.
\<close>

definition agent_node ::
  "(string \<Rightarrow> (string \<times> string) list \<Rightarrow> world \<Rightarrow> exn + string \<times> world) \<Rightarrow> string
     \<Rightarrow> graph_state \<times> world \<Rightarrow> graph_state \<times> world" where
  "agent_node generate_response node_apology sw =
     (case sw of (state, w) \<Rightarrow>
        (case current_query state of
           None \<Rightarrow> (state\<lparr>response := Some no_query_apology\<rparr>, w)
         | Some query \<Rightarrow>
             if query = [] then (state\<lparr>response := Some no_query_apology\<rparr>, w)
             else
               (case generate_response query (convert_history (messages state)) w of
                  Inr (answer, w') \<Rightarrow>
                    (state\<lparr>response := Some answer,
                           messages := messages state @ [Message ASSISTANT answer None]\<rparr>, w')
                | Inl e \<Rightarrow> (state\<lparr>response := Some node_apology\<rparr>, w))))"

definition travel_support_node :: "services \<Rightarrow> graph_state \<times> world \<Rightarrow> graph_state \<times> world" where
  "travel_support_node S =
     agent_node (\<lambda>query history. travel_generate_response S query history 5)
       (''I apologize, but I encountered an error while processing '' @
        ''your travel support question. Please try again.'')"

definition booking_payments_node :: "services \<Rightarrow> graph_state \<times> world \<Rightarrow> graph_state \<times> world" where
  "booking_payments_node S =
     agent_node (\<lambda>query history. booking_generate_response S query history 5)
       (''I apologize, but I encountered an error while processing '' @
        ''your booking/payment question. Please try again.'')"

definition policy_node :: "services \<Rightarrow> graph_state \<times> world \<Rightarrow> graph_state \<times> world" where
  "policy_node S =
     agent_node (\<lambda>query history. policy_generate_response S query history 5)
       (''I apologize, but I encountered an error while processing '' @
        ''your policy question. Please try again.'')"

text \<open>
  The compiled graph: entry, orchestrator, the conditional edge, one agent node, end.
  The conditional edge knows the three agent names; any other name is an error of the
  graph library.
\<close>

definition run_graph :: "services \<Rightarrow> graph_state \<times> world \<Rightarrow> exn + graph_state \<times> world" where
  "run_graph S sw =
     (case sw of (state, w) \<Rightarrow>
        (case orchestrator_node S (entry_node state, w) of
           (state', w') \<Rightarrow>
             (let next_node = route_agent state'
              in if next_node = ''travel_support'' then Inr (travel_support_node S (state', w'))
                 else if next_node = ''booking_payments'' then Inr (booking_payments_node S (state', w'))
                 else if next_node = ''policy'' then Inr (policy_node S (state', w'))
                 else Inl KeyError)))"

section \<open>Auxiliary definitions for the statements\<close>

text \<open>The invariant of a routing decision.\<close>

definition valid_decision :: "agent_routing_decision \<Rightarrow> bool" where
  "valid_decision d = (agent_type d \<in> set agent_types \<and> in_unit (confidence d))"

text \<open>
  A concrete environment for the examples: the classifier wraps a JSON object with an
  unknown agent type and an out-of-range confidence in prose; the corpus directory
  holds two policy texts; the embedding service is down.
\<close>

definition demo_services :: services where
  "demo_services =
     \<lparr>llm = (\<lambda>a msgs. Inr '' Sure: {\"agent_type\": \"billing\", \"confidence\": 1.7} done ''),
      json_loads = (\<lambda>s. if s = ''{\"agent_type\": \"billing\", \"confidence\": 1.7}''
                         then Inr (JDict [(''agent_type'', JStr ''billing''),
                                          (''confidence'', JFloat (Fin 1.7))])
                         else Inl JSONDecodeError),
      float_of_str = (\<lambda>s. None),
      strict_model = True,
      coerce_str = (\<lambda>v. None),
      embed_query = (\<lambda>q. Inl (ProviderError ''offline'')),
      collection_query = (\<lambda>e k w. Inl (ProviderError ''offline'')),
      data_dir = Directory [Inr ''Refund policy: refunds within 30 days.'',
                            Inr ''Baggage rules: two bags per traveller.''],
      re_sub_markers = (\<lambda>s. s)\<rparr>"

text \<open>
  The same environment with the embedding service and the vector store up: four
  results, at distances 0, 1, 1.5 and 0.25.
\<close>

definition demo_retrieval :: services where
  "demo_retrieval =
     demo_services
       \<lparr>embed_query := (\<lambda>q. Inr [0.25, 0.5]),
        collection_query := (\<lambda>e k w. Inr
           \<lparr>qr_documents = Some [[''Bali in May'', ''Bali visa'', ''Rome hotels'', ''Oslo'']],
            qr_metadatas = Some [[[(''source_file'', ''bali.txt'')], [], [], []]],
            qr_distances = Some [[Fin 0, Fin 1, Fin 1.5, Fin 0.25]]\<rparr>)\<rparr>"

text \<open>
  The doubles that the literals \<open>0.9\<close> and \<open>0.1\<close> denote, and an environment whose
  vector store returns six results, at distances 0, 1, 1.5, 0.25, 0.9 and 0.1.
\<close>

definition double_0_9 :: real where
  "double_0_9 = 8106479329266893 / 2 ^ 53"

definition double_0_1 :: real where
  "double_0_1 = 3602879701896397 / 2 ^ 55"

definition demo_scores :: services where
  "demo_scores =
     demo_services
       \<lparr>embed_query := (\<lambda>q. Inr [0.25, 0.5]),
        collection_query := (\<lambda>e k w. Inr
           \<lparr>qr_documents =
              Some [[''Bali in May'', ''Bali visa'', ''Rome hotels'', ''Oslo'', ''Lima'', ''Cairo'']],
            qr_metadatas = Some [[[(''source_file'', ''bali.txt'')], [], [], [], [], []]],
            qr_distances =
              Some [[Fin 0, Fin 1, Fin 1.5, Fin 0.25, Fin double_0_9, Fin double_0_1]]\<rparr>)\<rparr>"

text \<open>
  A text of white space only: each of its characters is one of the twelve that Python
  counts as white space among the code points below 256. The empty text is one. The
  generation service has failed when it raised or returned white space only.
\<close>

definition whitespace_only :: "string \<Rightarrow> bool" where
  "whitespace_only c =
     (set c \<subseteq> {CHR 0x09, CHR 0x0A, CHR 0x0B, CHR 0x0C, CHR 0x0D, CHR 0x1C, CHR 0x1D,
               CHR 0x1E, CHR 0x1F, CHR 0x20, CHR 0x85, CHR 0xA0})"

definition generation_failed :: "exn + string \<Rightarrow> bool" where
  "generation_failed r = (case r of Inl e \<Rightarrow> True | Inr c \<Rightarrow> whitespace_only c)"

text \<open>
  A conversation of five messages, as the dictionaries the agents receive and as the
  state of a request, and the example environment with every chat model down.
\<close>

definition demo_history :: "(string \<times> string) list" where
  "demo_history =
     [(''user'', ''Bali trip''), (''assistant'', ''Sure''), (''user'', ''In May''),
      (''assistant'', ''Noted''), (''user'', ''Visa rules?'')]"

definition demo_state :: graph_state where
  "demo_state =
     \<lparr>messages = [Message USER ''Bali trip'' None, Message ASSISTANT ''Sure'' None,
                  Message USER ''In May'' None, Message ASSISTANT ''Noted'' None,
                  Message USER ''Visa rules?'' None],
      current_query = Some ''Visa rules?'',
      routing_decision = None, retrieved_context = None, cached_data = None,
      session_id = Some ''s1'', current_agent = None, response = None\<rparr>"

definition demo_models_down :: services where
  "demo_models_down = demo_services\<lparr>llm := \<lambda>a msgs. Inl (ProviderError ''timeout'')\<rparr>"

text \<open>
  The example environment with the classifier working and the three answering models
  failing, each in its own way: the travel support model raises, the booking model
  returns a blank, a line feed and a tab, the policy model returns a no-break space and
  a next-line character.
\<close>

definition demo_generation_down :: services where
  "demo_generation_down =
     demo_services
       \<lparr>llm := \<lambda>a msgs.
          (case a of
             Orchestrator \<Rightarrow>
               Inr '' Sure: {\"agent_type\": \"billing\", \"confidence\": 1.7} done ''
           | TravelSupport \<Rightarrow> Inl (ProviderError ''timeout'')
           | BookingPayments \<Rightarrow> Inr [CHR 0x20, CHR 0x0A, CHR 0x09]
           | Policy \<Rightarrow> Inr [CHR 0xA0, CHR 0x85])\<rparr>"

text \<open>A request whose conversation holds no message of the user.\<close>

definition demo_no_user_state :: graph_state where
  "demo_no_user_state =
     demo_state\<lparr>messages := [Message SYSTEM ''Be brief'' None, Message ASSISTANT ''Welcome'' None]\<rparr>"

section \<open>The keyword fallback of the router\<close>


lemma startswith_prefix: "startswith s p \<longleftrightarrow> prefix p s"
  by (induction s p rule: startswith.induct) auto

lemma py_in_sublist: "py_in kw s \<longleftrightarrow> sublist kw s"
  by (induction s) (auto simp: startswith_prefix sublist_Cons_right simp del: startswith.simps)

lemma keyword_score_length:
  "keyword_score kws q = int (length (filter (\<lambda>kw. py_in kw q) kws))"
  unfolding keyword_score_def by (induction kws) auto

lemma keyword_score_card:
  assumes "distinct kws"
  shows "keyword_score kws q = int (card {kw \<in> set kws. sublist kw q})"
proof -
  have "distinct (filter (\<lambda>kw. py_in kw q) kws)" using assms by simp
  then have "card (set (filter (\<lambda>kw. py_in kw q) kws)) = length (filter (\<lambda>kw. py_in kw q) kws)"
    by (rule distinct_card)
  moreover have "set (filter (\<lambda>kw. py_in kw q) kws) = {kw \<in> set kws. sublist kw q}"
    by (auto simp: py_in_sublist)
  ultimately show ?thesis by (simp add: keyword_score_length)
qed

lemma distinct_booking_keywords: "distinct booking_keywords"
  by (simp add: booking_keywords_def)

lemma distinct_policy_keywords: "distinct policy_keywords"
  by (simp add: policy_keywords_def)

lemma py_min_Fin: "py_min (Fin a) (Fin b) = Fin (min a b)"
  by (simp add: py_min_def min_def)

lemma AgentRoutingDecision_valid:
  "a \<in> set agent_types \<Longrightarrow> in_unit c \<Longrightarrow>
   AgentRoutingDecision S a c (JStr r) = Inr \<lparr>agent_type = a, confidence = c, reasoning = r\<rparr>"
  by (simp add: AgentRoutingDecision_def)

lemma fallback_routing_eq:
  "fallback_routing S query =
     (let b = keyword_score booking_keywords (py_lower query);
          p = keyword_score policy_keywords (py_lower query)
      in if b > p \<and> b > 0 then
           Inr \<lparr>agent_type = ''booking_payments'',
                confidence = Fin (min 0.8 (0.5 + real_of_int b * 0.1)),
                reasoning = ''Matched booking/payment keywords''\<rparr>
         else if p > 0 then
           Inr \<lparr>agent_type = ''policy'',
                confidence = Fin (min 0.8 (0.5 + real_of_int p * 0.1)),
                reasoning = ''Matched policy keywords''\<rparr>
         else
           Inr \<lparr>agent_type = ''travel_support'', confidence = Fin 0.6,
                reasoning = ''Default fallback to travel support''\<rparr>)"
proof -
  define b where "b = keyword_score booking_keywords (py_lower query)"
  define p where "p = keyword_score policy_keywords (py_lower query)"
  have u: "in_unit (Fin 0.6)" by (simp add: in_unit_def)
  have bk: "AgentRoutingDecision S ''booking_payments''
             (py_min (Fin 0.8) (Fin (0.5 + real_of_int b * 0.1)))
             (JStr ''Matched booking/payment keywords'')
           = Inr \<lparr>agent_type = ''booking_payments'',
                confidence = Fin (min 0.8 (0.5 + real_of_int b * 0.1)),
                reasoning = ''Matched booking/payment keywords''\<rparr>" if "b > 0"
    unfolding py_min_Fin
    by (rule AgentRoutingDecision_valid) (use that in \<open>simp_all add: agent_types_def in_unit_def min_def\<close>)
  have pk: "AgentRoutingDecision S ''policy''
             (py_min (Fin 0.8) (Fin (0.5 + real_of_int p * 0.1)))
             (JStr ''Matched policy keywords'')
           = Inr \<lparr>agent_type = ''policy'',
                confidence = Fin (min 0.8 (0.5 + real_of_int p * 0.1)),
                reasoning = ''Matched policy keywords''\<rparr>" if "p > 0"
    unfolding py_min_Fin
    by (rule AgentRoutingDecision_valid) (use that in \<open>simp_all add: agent_types_def in_unit_def min_def\<close>)
  have tk: "AgentRoutingDecision S ''travel_support'' (Fin 0.6)
             (JStr ''Default fallback to travel support'')
           = Inr \<lparr>agent_type = ''travel_support'', confidence = Fin 0.6,
                reasoning = ''Default fallback to travel support''\<rparr>"
    by (rule AgentRoutingDecision_valid) (simp_all add: agent_types_def in_unit_def)
  consider "b > p \<and> b > 0" | "\<not> (b > p \<and> b > 0)" "p > 0" | "\<not> (b > p \<and> b > 0)" "\<not> p > 0"
    by blast
  then show ?thesis
  proof cases
    case 1
    then show ?thesis
      unfolding fallback_routing_def Let_def b_def [symmetric] p_def [symmetric]
      using bk by (simp only: if_True simp_thms)
  next
    case 2
    then show ?thesis
      unfolding fallback_routing_def Let_def b_def [symmetric] p_def [symmetric]
      using pk by (simp only: if_True if_False simp_thms)
  next
    case 3
    then show ?thesis
      unfolding fallback_routing_def Let_def b_def [symmetric] p_def [symmetric]
      using tk by (simp only: if_False simp_thms)
  qed
qed

text \<open>
  Claim C1. For every query, the keyword fallback returns a decision (it does not
  raise). With the booking score and the policy score taken as the number of members
  of the respective keyword set that occur as substrings of the lower-cased query, the
  category is \<open>booking_payments\<close> with confidence \<open>min(0.8, 0.5 + 0.1 * booking_score)\<close>
  when the booking score is strictly larger than the policy score and positive;
  otherwise \<open>policy\<close> with confidence \<open>min(0.8, 0.5 + 0.1 * policy_score)\<close> when the
  policy score is positive (so equal nonzero scores go to \<open>policy\<close>); otherwise
  \<open>travel_support\<close> with confidence 0.6.
\<close>

theorem fallback_routing_keyword_scores:
  "let query_lower = py_lower query;
       booking_score = int (card {kw \<in> set booking_keywords. sublist kw query_lower});
       policy_score = int (card {kw \<in> set policy_keywords. sublist kw query_lower})
   in \<exists>d. fallback_routing S query = Inr d \<and>
        agent_type d =
          (if booking_score > policy_score \<and> booking_score > 0 then ''booking_payments''
           else if policy_score > 0 then ''policy'' else ''travel_support'') \<and>
        confidence d =
          (if booking_score > policy_score \<and> booking_score > 0
             then Fin (min 0.8 (0.5 + 0.1 * real_of_int booking_score))
           else if policy_score > 0
             then Fin (min 0.8 (0.5 + 0.1 * real_of_int policy_score))
           else Fin 0.6)"
  unfolding Let_def
    keyword_score_card [OF distinct_booking_keywords, symmetric]
    keyword_score_card [OF distinct_policy_keywords, symmetric]
  by (simp add: fallback_routing_eq Let_def mult.commute)

text \<open>
  The tie: \<open>Cancel pay\<close> matches one booking keyword (\<open>pay\<close>) and one policy keyword
  (\<open>cancel\<close>) and goes to \<open>policy\<close> with confidence 0.6.
\<close>

theorem fallback_routing_keyword_scores_witness:
  "\<forall>S. \<exists>d. fallback_routing S ''Cancel pay'' = Inr d \<and> agent_type d = ''policy'' \<and>
     confidence d = Fin 0.6"
proof
  fix S
  have l: "py_lower ''Cancel pay'' = ''cancel pay''"
    by (simp add: py_lower_def lower_char_def)
  have b: "int (card {kw \<in> set booking_keywords. sublist kw (py_lower ''Cancel pay'')}) = 1"
    unfolding keyword_score_card [OF distinct_booking_keywords, symmetric] l
    by (simp add: keyword_score_def booking_keywords_def)
  have p: "int (card {kw \<in> set policy_keywords. sublist kw (py_lower ''Cancel pay'')}) = 1"
    unfolding keyword_score_card [OF distinct_policy_keywords, symmetric] l
    by (simp add: keyword_score_def policy_keywords_def)
  from fallback_routing_keyword_scores [of "''Cancel pay''" S]
  show "\<exists>d. fallback_routing S ''Cancel pay'' = Inr d \<and> agent_type d = ''policy'' \<and>
     confidence d = Fin 0.6"
    unfolding Let_def b p by simp
qed

subsection \<open>Scenario A of the specification\<close>

lemma py_lower_bali:
  "py_lower ''How much does the Bali package cost?'' = ''how much does the bali package cost?''"
  by (simp add: py_lower_def lower_char_def)

lemma booking_matches_bali:
  "filter (\<lambda>kw. py_in kw ''how much does the bali package cost?'') booking_keywords
     = [''cost'', ''package'', ''how much'']"
  by (simp add: booking_keywords_def)

lemma policy_matches_bali:
  "filter (\<lambda>kw. py_in kw ''how much does the bali package cost?'') policy_keywords = []"
  by (simp add: policy_keywords_def)



text \<open>
  Claim C5, as amended. For the query \<open>How much does the Bali package cost?\<close> the
  fallback matches three booking keywords (\<open>cost\<close>, \<open>package\<close> and \<open>how much\<close>), so
  the booking score is 3 and the policy score is 0, and it returns category
  \<open>booking_payments\<close> with confidence \<open>min(0.8, 0.5 + 0.3) = 0.8\<close>.
\<close>

theorem fallback_routing_bali:
  "filter (\<lambda>kw. py_in kw (py_lower ''How much does the Bali package cost?'')) booking_keywords
     = [''cost'', ''package'', ''how much''] \<and>
   keyword_score booking_keywords (py_lower ''How much does the Bali package cost?'') = 3 \<and>
   keyword_score policy_keywords (py_lower ''How much does the Bali package cost?'') = 0 \<and>
   fallback_routing S ''How much does the Bali package cost?'' =
     Inr \<lparr>agent_type = ''booking_payments'', confidence = Fin 0.8,
          reasoning = ''Matched booking/payment keywords''\<rparr>"
proof -
  have b: "keyword_score booking_keywords (py_lower ''How much does the Bali package cost?'') = 3"
    unfolding keyword_score_def py_lower_bali booking_matches_bali by simp
  have p: "keyword_score policy_keywords (py_lower ''How much does the Bali package cost?'') = 0"
    unfolding keyword_score_def py_lower_bali policy_matches_bali by simp
  have f: "filter (\<lambda>kw. py_in kw (py_lower ''How much does the Bali package cost?'')) booking_keywords
     = [''cost'', ''package'', ''how much'']"
    unfolding py_lower_bali by (rule booking_matches_bali)
  have r: "fallback_routing S ''How much does the Bali package cost?'' =
     Inr \<lparr>agent_type = ''booking_payments'', confidence = Fin 0.8,
          reasoning = ''Matched booking/payment keywords''\<rparr>"
    unfolding fallback_routing_eq Let_def b p by simp
  show ?thesis using f b p r by (intro conjI)
qed

text \<open>
  Claim C5 as stated (booking score 1, confidence 0.6) fails: the score is not 1, and
  no environment makes the fallback return confidence 0.6 for this query.
\<close>

theorem fallback_routing_bali_counterexample:
  "keyword_score booking_keywords (py_lower ''How much does the Bali package cost?'') \<noteq> 1 \<and>
   \<not> (\<exists>S d. fallback_routing S ''How much does the Bali package cost?'' = Inr d \<and>
        confidence d = Fin 0.6)"
proof -
  have b: "keyword_score booking_keywords (py_lower ''How much does the Bali package cost?'') = 3"
    unfolding keyword_score_def py_lower_bali booking_matches_bali by simp
  have p: "keyword_score policy_keywords (py_lower ''How much does the Bali package cost?'') = 0"
    unfolding keyword_score_def py_lower_bali policy_matches_bali by simp
  have "fallback_routing S ''How much does the Bali package cost?'' =
     Inr \<lparr>agent_type = ''booking_payments'', confidence = Fin 0.8,
          reasoning = ''Matched booking/payment keywords''\<rparr>" for S
    unfolding fallback_routing_eq Let_def b p by simp
  then show ?thesis by (simp add: b)
qed

section \<open>The router never raises\<close>

lemma in_unit_clamp_confidence: "in_unit (clamp_confidence c)"
  by (cases c) (simp_all add: clamp_confidence_def py_min_def py_max_def in_unit_def)

lemma clamp_confidence_cases:
  "clamp_confidence c =
     (case c of Fin x \<Rightarrow> Fin (max 0 (min 1 x)) | PosInf \<Rightarrow> Fin 1 | NegInf \<Rightarrow> Fin 0 | NaN \<Rightarrow> Fin 1)"
  by (cases c) (auto simp: clamp_confidence_def py_min_def py_max_def max_def min_def)

lemma validate_agent_type_known: "validate_agent_type v \<in> set agent_types"
  by (cases v) (simp_all add: validate_agent_type_def agent_types_def)

lemma AgentRoutingDecision_Inr:
  "a \<in> set agent_types \<Longrightarrow> in_unit c \<Longrightarrow> AgentRoutingDecision S a c r = Inr d \<Longrightarrow> valid_decision d"
  by (auto simp: AgentRoutingDecision_def valid_decision_def split: option.splits if_splits)

lemma decision_of_data_Inr: "decision_of_data S data = Inr d \<Longrightarrow> valid_decision d"
  unfolding decision_of_data_def
  by (auto split: sum.splits
      dest!: AgentRoutingDecision_Inr [OF validate_agent_type_known in_unit_clamp_confidence])

lemma route_query_try_Inr: "route_query_try S query = Inr d \<Longrightarrow> valid_decision d"
  unfolding route_query_try_def
  by (auto split: sum.splits dest: decision_of_data_Inr)

lemma fallback_routing_valid: "\<exists>d. fallback_routing S query = Inr d \<and> valid_decision d"
  unfolding fallback_routing_eq Let_def
  by (auto simp: valid_decision_def agent_types_def in_unit_def min_def)

lemma route_query_valid: "\<exists>d. route_query S query = Inr d \<and> valid_decision d"
proof (cases "route_query_try S query")
  case (Inl e)
  then show ?thesis by (simp add: route_query_def fallback_routing_valid)
next
  case (Inr d)
  then show ?thesis by (simp add: route_query_def route_query_try_Inr)
qed


lemma decision_of_data_dict:
  assumes "py_float (float_of_str S)
             (case map_of items ''confidence'' of Some v \<Rightarrow> v | None \<Rightarrow> JFloat (Fin 0.7)) = Inr c"
    and "(case map_of items ''reasoning'' of Some v \<Rightarrow> v
          | None \<Rightarrow> JStr ''No reasoning provided'') = JStr r"
  shows "decision_of_data S (JDict items) =
     Inr \<lparr>agent_type =
            validate_agent_type
              (case map_of items ''agent_type'' of Some v \<Rightarrow> v | None \<Rightarrow> JStr ''travel_support''),
          confidence = clamp_confidence c, reasoning = r\<rparr>"
proof -
  have g: "dict_get (JDict items) k dflt = Inr (case map_of items k of Some v \<Rightarrow> v | None \<Rightarrow> dflt)"
    for k dflt
    by (simp add: dict_get_def split: option.splits)
  show ?thesis
    unfolding decision_of_data_def g
    using assms
    by (simp add: AgentRoutingDecision_valid validate_agent_type_known in_unit_clamp_confidence)
qed

text \<open>
  Claim C2. For every query and every behaviour of the classifier, of the JSON
  parser and of the model class's validation, \<open>route_query\<close> returns a decision (it
  does not raise) whose agent type is one of \<open>travel_support\<close>, \<open>booking_payments\<close>,
  \<open>policy\<close> and whose confidence is a finite number in the unit interval. When the
  classifier raises, or its reply does not parse, the decision is the keyword
  fallback's. When the reply parses to a dictionary whose confidence converts to a
  float and whose reasoning is text, the decision is built from it with an unknown
  or missing agent type replaced by \<open>travel_support\<close> and the confidence clamped to
  the unit interval (NaN and positive infinity to 1, negative infinity to 0).
\<close>

theorem route_query_never_raises:
  "(\<exists>d. route_query S query = Inr d \<and>
        agent_type d \<in> {''travel_support'', ''booking_payments'', ''policy''} \<and>
        in_unit (confidence d)) \<and>
   (\<forall>e. llm S Orchestrator
            [SystemMessage orchestrator_system_prompt,
             HumanMessage (''Route this query: '' @ query)] = Inl e
        \<longrightarrow> route_query S query = fallback_routing S query) \<and>
   (\<forall>reply e. llm S Orchestrator
            [SystemMessage orchestrator_system_prompt,
             HumanMessage (''Route this query: '' @ query)] = Inr reply \<and>
          extract_json S reply = Inl e
        \<longrightarrow> route_query S query = fallback_routing S query) \<and>
   (\<forall>reply items c r.
        llm S Orchestrator
            [SystemMessage orchestrator_system_prompt,
             HumanMessage (''Route this query: '' @ query)] = Inr reply \<and>
        extract_json S reply = Inr (JDict items) \<and>
        py_float (float_of_str S)
          (case map_of items ''confidence'' of Some v \<Rightarrow> v | None \<Rightarrow> JFloat (Fin 0.7)) = Inr c \<and>
        (case map_of items ''reasoning'' of Some v \<Rightarrow> v
         | None \<Rightarrow> JStr ''No reasoning provided'') = JStr r
        \<longrightarrow> route_query S query =
              Inr \<lparr>agent_type =
                     (case map_of items ''agent_type'' of
                        Some (JStr a) \<Rightarrow>
                          if a \<in> {''travel_support'', ''booking_payments'', ''policy''} then a
                          else ''travel_support''
                      | _ \<Rightarrow> ''travel_support''),
                   confidence =
                     (case c of Fin x \<Rightarrow> Fin (max 0 (min 1 x)) | PosInf \<Rightarrow> Fin 1
                      | NegInf \<Rightarrow> Fin 0 | NaN \<Rightarrow> Fin 1),
                   reasoning = r\<rparr>)"
proof (intro conjI allI impI)
  from route_query_valid [of S query]
  show "\<exists>d. route_query S query = Inr d \<and>
        agent_type d \<in> {''travel_support'', ''booking_payments'', ''policy''} \<and>
        in_unit (confidence d)"
    by (auto simp: valid_decision_def agent_types_def)
next
  fix e
  assume "llm S Orchestrator
            [SystemMessage orchestrator_system_prompt,
             HumanMessage (''Route this query: '' @ query)] = Inl e"
  then show "route_query S query = fallback_routing S query"
    by (simp add: route_query_def route_query_try_def)
next
  fix reply e
  assume "llm S Orchestrator
            [SystemMessage orchestrator_system_prompt,
             HumanMessage (''Route this query: '' @ query)] = Inr reply \<and>
          extract_json S reply = Inl e"
  then show "route_query S query = fallback_routing S query"
    by (simp add: route_query_def route_query_try_def)
next
  fix reply items c r
  assume a: "llm S Orchestrator
            [SystemMessage orchestrator_system_prompt,
             HumanMessage (''Route this query: '' @ query)] = Inr reply \<and>
        extract_json S reply = Inr (JDict items) \<and>
        py_float (float_of_str S)
          (case map_of items ''confidence'' of Some v \<Rightarrow> v | None \<Rightarrow> JFloat (Fin 0.7)) = Inr c \<and>
        (case map_of items ''reasoning'' of Some v \<Rightarrow> v
         | None \<Rightarrow> JStr ''No reasoning provided'') = JStr r"
  have v: "validate_agent_type
              (case map_of items ''agent_type'' of Some v \<Rightarrow> v | None \<Rightarrow> JStr ''travel_support'')
           = (case map_of items ''agent_type'' of
                        Some (JStr a) \<Rightarrow>
                          if a \<in> {''travel_support'', ''booking_payments'', ''policy''} then a
                          else ''travel_support''
                      | _ \<Rightarrow> ''travel_support'')"
    by (auto simp: validate_agent_type_def agent_types_def split: option.splits json.splits)
  from a have "route_query_try S query =
     Inr \<lparr>agent_type =
            validate_agent_type
              (case map_of items ''agent_type'' of Some v \<Rightarrow> v | None \<Rightarrow> JStr ''travel_support''),
          confidence = clamp_confidence c, reasoning = r\<rparr>"
    by (simp add: route_query_try_def decision_of_data_dict)
  then show "route_query S query =
              Inr \<lparr>agent_type =
                     (case map_of items ''agent_type'' of
                        Some (JStr a) \<Rightarrow>
                          if a \<in> {''travel_support'', ''booking_payments'', ''policy''} then a
                          else ''travel_support''
                      | _ \<Rightarrow> ''travel_support''),
                   confidence =
                     (case c of Fin x \<Rightarrow> Fin (max 0 (min 1 x)) | PosInf \<Rightarrow> Fin 1
                      | NegInf \<Rightarrow> Fin 0 | NaN \<Rightarrow> Fin 1),
                   reasoning = r\<rparr>"
    unfolding route_query_def v [symmetric] clamp_confidence_cases [symmetric] by simp
qed

text \<open>
  In the example environment the reply names the agent type \<open>billing\<close> with confidence
  1.7: the decision is \<open>travel_support\<close> with confidence 1. With the classifier down,
  the decision is the fallback's.
\<close>

lemma demo_reply_json:
  "extract_json demo_services '' Sure: {\"agent_type\": \"billing\", \"confidence\": 1.7} done ''
     = Inr (JDict [(''agent_type'', JStr ''billing''), (''confidence'', JFloat (Fin 1.7))])"
  by (simp add: extract_json_def demo_services_def py_strip_def is_space_def py_find_def
      py_rfind_def py_slice_def Let_def)

theorem route_query_never_raises_witness:
  "route_query demo_services ''Where is my bill?'' =
     Inr \<lparr>agent_type = ''travel_support'', confidence = Fin 1,
          reasoning = ''No reasoning provided''\<rparr> \<and>
   route_query (demo_services\<lparr>llm := \<lambda>a msgs. Inl (ProviderError ''timeout'')\<rparr>)
       ''Where is my bill?'' =
     fallback_routing (demo_services\<lparr>llm := \<lambda>a msgs. Inl (ProviderError ''timeout'')\<rparr>)
       ''Where is my bill?''"
proof
  have l: "llm demo_services Orchestrator
            [SystemMessage orchestrator_system_prompt,
             HumanMessage (''Route this query: '' @ ''Where is my bill?'')]
           = Inr '' Sure: {\"agent_type\": \"billing\", \"confidence\": 1.7} done ''"
    by (simp add: demo_services_def)
  have f: "py_float (float_of_str demo_services)
          (case map_of [(''agent_type'', JStr ''billing''), (''confidence'', JFloat (Fin 1.7))]
                  ''confidence'' of Some v \<Rightarrow> v | None \<Rightarrow> JFloat (Fin 0.7)) = Inr (Fin 1.7)"
    by (simp add: py_float_def)
  have r: "(case map_of [(''agent_type'', JStr ''billing''), (''confidence'', JFloat (Fin 1.7))]
                  ''reasoning'' of Some v \<Rightarrow> v
         | None \<Rightarrow> JStr ''No reasoning provided'') = JStr ''No reasoning provided''"
    by simp
  from route_query_never_raises [of demo_services "''Where is my bill?''"]
  have "\<forall>reply items c r.
        llm demo_services Orchestrator
            [SystemMessage orchestrator_system_prompt,
             HumanMessage (''Route this query: '' @ ''Where is my bill?'')] = Inr reply \<and>
        extract_json demo_services reply = Inr (JDict items) \<and>
        py_float (float_of_str demo_services)
          (case map_of items ''confidence'' of Some v \<Rightarrow> v | None \<Rightarrow> JFloat (Fin 0.7)) = Inr c \<and>
        (case map_of items ''reasoning'' of Some v \<Rightarrow> v
         | None \<Rightarrow> JStr ''No reasoning provided'') = JStr r
        \<longrightarrow> route_query demo_services ''Where is my bill?'' =
              Inr \<lparr>agent_type =
                     (case map_of items ''agent_type'' of
                        Some (JStr a) \<Rightarrow>
                          if a \<in> {''travel_support'', ''booking_payments'', ''policy''} then a
                          else ''travel_support''
                      | _ \<Rightarrow> ''travel_support''),
                   confidence =
                     (case c of Fin x \<Rightarrow> Fin (max 0 (min 1 x)) | PosInf \<Rightarrow> Fin 1
                      | NegInf \<Rightarrow> Fin 0 | NaN \<Rightarrow> Fin 1),
                   reasoning = r\<rparr>"
    by blast
  from this [rule_format, OF conjI [OF l conjI [OF demo_reply_json conjI [OF f r]]]]
  show "route_query demo_services ''Where is my bill?'' =
     Inr \<lparr>agent_type = ''travel_support'', confidence = Fin 1,
          reasoning = ''No reasoning provided''\<rparr>"
    by simp
next
  let ?S = "demo_services\<lparr>llm := \<lambda>a msgs. Inl (ProviderError ''timeout'')\<rparr>"
  from route_query_never_raises [of ?S "''Where is my bill?''"]
  have "\<forall>e. llm ?S Orchestrator
            [SystemMessage orchestrator_system_prompt,
             HumanMessage (''Route this query: '' @ ''Where is my bill?'')] = Inl e
        \<longrightarrow> route_query ?S ''Where is my bill?'' = fallback_routing ?S ''Where is my bill?''"
    by blast
  then show "route_query ?S ''Where is my bill?'' = fallback_routing ?S ''Where is my bill?''"
    by simp
qed

section \<open>Similarity scores of the semantic retriever\<close>


lemma round_half_even_nonneg: "0 \<le> x \<Longrightarrow> 0 \<le> round_half_even x"
  by (auto simp: round_half_even_def Let_def)

text \<open>
  The double nearest to a real whose binary exponent is known: for \<open>2 ^ k \<le> |x| < 2 ^ (k + 1)\<close>
  with \<open>k\<close> in the normal range, the doubles around \<open>x\<close> are the multiples of \<open>2 ^ (k - 52)\<close>.
\<close>

lemma round_double_binade:
  assumes "2 powr of_int k \<le> \<bar>x\<bar>" and "\<bar>x\<bar> < 2 powr of_int (k + 1)" and "- 1022 \<le> k"
  shows "round_double x =
     (let ulp = 2 powr of_int (k - 52);
          y = of_int (round_half_even (x / ulp)) * ulp
      in if \<bar>y\<bar> \<ge> 2 ^ 1024 then (if x > 0 then PosInf else NegInf) else Fin y)"
proof -
  have p: "0 < \<bar>x\<bar>"
    using assms(1) by (smt (verit) powr_gt_zero)
  then have n: "x \<noteq> 0" by simp
  have "\<lfloor>log 2 \<bar>x\<bar>\<rfloor> = k"
    using assms(1,2) p by (simp add: floor_log_eq_powr_iff)
  then have "max \<lfloor>log 2 \<bar>x\<bar>\<rfloor> (- 1022) = k"
    using assms(3) by simp
  then show ?thesis
    using n by (simp add: round_double_def)
qed

lemma round_double_nonneg: "0 \<le> x \<Longrightarrow> \<not> fl_lt (round_double x) (Fin 0)"
proof (cases "x = 0")
  case True
  then show ?thesis by (simp add: round_double_def)
next
  case False
  assume "0 \<le> x"
  with False have x: "0 < x" by simp
  define u :: real where "u = 2 powr of_int (max \<lfloor>log 2 \<bar>x\<bar>\<rfloor> (- 1022) - 52)"
  have u: "0 < u" by (simp add: u_def)
  have "0 \<le> round_half_even (x / u)"
    using x u by (intro round_half_even_nonneg) simp
  then have y: "0 \<le> of_int (round_half_even (x / u)) * u"
    using u by simp
  have "round_double x =
      (if \<bar>of_int (round_half_even (x / u)) * u\<bar> \<ge> 2 ^ 1024 then PosInf
       else Fin (of_int (round_half_even (x / u)) * u))"
    using x by (simp add: round_double_def Let_def u_def)
  then show ?thesis
    using y by simp
qed

lemma round_double_0: "round_double 0 = Fin 0"
  by (simp add: round_double_def)

lemma round_double_1: "round_double 1 = Fin 1"
  using round_double_binade [of 0 1]
  by (simp add: Let_def powr_neg_numeral round_half_even_def)

lemma round_double_three_quarters: "round_double (3 / 4) = Fin (3 / 4)"
  using round_double_binade [of "- 1" "3 / 4"]
  by (simp add: Let_def powr_neg_numeral round_half_even_def)

lemma one_minus_double_0_9:
  "round_double (1 - double_0_9) = Fin (900719925474099 / 2 ^ 53)"
  using round_double_binade [of "- 4" "1 - double_0_9"]
  by (simp add: Let_def powr_neg_numeral round_half_even_def double_0_9_def)

lemma one_minus_double_0_1: "round_double (1 - double_0_1) = Fin double_0_9"
  using round_double_binade [of "- 1" "1 - double_0_1"]
  by (simp add: Let_def powr_neg_numeral round_half_even_def double_0_1_def double_0_9_def)

text \<open>The doubles of the literals \<open>0.9\<close> and \<open>0.1\<close>.\<close>

lemma literal_0_9: "round_double 0.9 = Fin double_0_9"
  using round_double_binade [of "- 1" "0.9"]
  by (simp add: Let_def powr_neg_numeral round_half_even_def double_0_9_def)

lemma literal_0_1: "round_double 0.1 = Fin double_0_1"
  using round_double_binade [of "- 4" "0.1"]
  by (simp add: Let_def powr_neg_numeral round_half_even_def double_0_1_def)


lemma filter_by_score_eq:
  "filter_by_score t docs =
     map (\<lambda>doc. doc\<lparr>similarity := Some
            (let d = (case distance doc of Some d \<Rightarrow> d | None \<Rightarrow> Fin 1)
             in if fl_le d (Fin 1) then fl_sub (Fin 1) d else Fin 0)\<rparr>)
       (filter (\<lambda>doc. fl_le t
            (let d = (case distance doc of Some d \<Rightarrow> d | None \<Rightarrow> Fin 1)
             in if fl_le d (Fin 1) then fl_sub (Fin 1) d else Fin 0)) docs)"
  by (induction docs) (simp_all add: Let_def)

lemma code_similarity_cases:
  "(let d = (case dv of Some d \<Rightarrow> d | None \<Rightarrow> Fin 1)
    in if fl_le d (Fin 1) then fl_sub (Fin 1) d else Fin 0)
   = (case dv of
        None \<Rightarrow> Fin 0
      | Some (Fin d) \<Rightarrow> if d \<le> 1 then round_double (1 - d) else Fin 0
      | Some PosInf \<Rightarrow> Fin 0
      | Some NegInf \<Rightarrow> PosInf
      | Some NaN \<Rightarrow> Fin 0)"
  by (auto simp: Let_def fl_le_def round_double_0 split: option.splits pyfloat.splits)

text \<open>
  Claim C8. \<open>retrieve_with_scores\<close> returns the documents of \<open>retrieve\<close>, in order,
  whose similarity is at least the threshold, each with its similarity attached. The
  similarity of a distance \<open>d\<close> is the float \<open>1 - d\<close>, the double nearest to the
  difference, when \<open>d \<le> 1\<close>, and 0 when \<open>d > 1\<close> (a NaN distance gives 0 as well); a
  document without a distance is treated as at distance 1. So distance 0 gives 1,
  distance 1 gives 0, distance 1.5 gives 0, and no similarity is negative.
\<close>

theorem retrieve_with_scores_similarity:
  "let sim = (\<lambda>dv. case dv of
                 None \<Rightarrow> Fin 0
               | Some (Fin d) \<Rightarrow> if d \<le> 1 then round_double (1 - d) else Fin 0
               | Some PosInf \<Rightarrow> Fin 0
               | Some NegInf \<Rightarrow> PosInf
               | Some NaN \<Rightarrow> Fin 0)
   in retrieve_with_scores S query agent_ty top_k score_threshold trace =
        (map (\<lambda>doc. doc\<lparr>similarity := Some (sim (distance doc))\<rparr>)
           (filter (\<lambda>doc. fl_le score_threshold (sim (distance doc)))
              (fst (rag_retrieve S query agent_ty top_k None trace))),
         snd (rag_retrieve S query agent_ty top_k None trace)) \<and>
      sim (Some (Fin 0)) = Fin 1 \<and> sim (Some (Fin 1)) = Fin 0 \<and> sim (Some (Fin 1.5)) = Fin 0 \<and>
      sim None = sim (Some (Fin 1)) \<and>
      (\<forall>dv. \<not> fl_lt (sim dv) (Fin 0))"
proof -
  have neg: "\<not> fl_lt (case dv of
                 None \<Rightarrow> Fin 0
               | Some (Fin d) \<Rightarrow> if d \<le> 1 then round_double (1 - d) else Fin 0
               | Some PosInf \<Rightarrow> Fin 0
               | Some NegInf \<Rightarrow> PosInf
               | Some NaN \<Rightarrow> Fin 0) (Fin 0)" for dv
    by (auto simp: round_double_nonneg split: option.splits pyfloat.splits)
  have main: "retrieve_with_scores S query agent_ty top_k score_threshold trace =
        (map (\<lambda>doc. doc\<lparr>similarity := Some (case distance doc of
                 None \<Rightarrow> Fin 0
               | Some (Fin d) \<Rightarrow> if d \<le> 1 then round_double (1 - d) else Fin 0
               | Some PosInf \<Rightarrow> Fin 0
               | Some NegInf \<Rightarrow> PosInf
               | Some NaN \<Rightarrow> Fin 0)\<rparr>)
           (filter (\<lambda>doc. fl_le score_threshold (case distance doc of
                 None \<Rightarrow> Fin 0
               | Some (Fin d) \<Rightarrow> if d \<le> 1 then round_double (1 - d) else Fin 0
               | Some PosInf \<Rightarrow> Fin 0
               | Some NegInf \<Rightarrow> PosInf
               | Some NaN \<Rightarrow> Fin 0))
              (fst (rag_retrieve S query agent_ty top_k None trace))),
         snd (rag_retrieve S query agent_ty top_k None trace))"
    unfolding retrieve_with_scores_def filter_by_score_eq code_similarity_cases
    by (simp add: case_prod_beta)
  show ?thesis
    unfolding Let_def using main neg by (simp add: round_double_0 round_double_1)
qed

text \<open>
  Six results at distances 0, 1, 1.5, 0.25, 0.9 and 0.1. Their similarities are 1, 0,
  0, 0.75, the double \<open>900719925474099 / 2 ^ 53\<close> (just below the float 0.1) and the
  float 0.9. With the threshold 0.1 the result at distance 0.9 is dropped, as the
  program's \<open>(1 - 0.9) >= 0.1\<close> is false; with the threshold 0.9 the result at distance
  0.1 is kept, as \<open>(1 - 0.1) >= 0.9\<close> is true.
\<close>

lemma demo_scores_retrieve:
  "rag_retrieve demo_scores ''bali'' ''travel_support'' 6 None [] =
     ([\<lparr>content = ''Bali in May'', metadata = [(''source_file'', ''bali.txt'')],
         distance = Some (Fin 0), similarity = None\<rparr>,
       \<lparr>content = ''Bali visa'', metadata = [], distance = Some (Fin 1), similarity = None\<rparr>,
       \<lparr>content = ''Rome hotels'', metadata = [], distance = Some (Fin 1.5), similarity = None\<rparr>,
       \<lparr>content = ''Oslo'', metadata = [], distance = Some (Fin 0.25), similarity = None\<rparr>,
       \<lparr>content = ''Lima'', metadata = [], distance = Some (Fin double_0_9), similarity = None\<rparr>,
       \<lparr>content = ''Cairo'', metadata = [], distance = Some (Fin double_0_1),
         similarity = None\<rparr>],
      [EmbedQuery ''bali'',
       CollectionQuery [0.25, 0.5] 6 [(''agent_type'', ''travel_support'')]])"
  by (simp add: rag_retrieve_def demo_scores_def format_results_def format_doc_def
      py_index_def Let_def)

lemma demo_scores_similarity_values:
  fixes sim
  defines "sim \<equiv> (\<lambda>dv. case dv of
                 None \<Rightarrow> Fin 0
               | Some (Fin d) \<Rightarrow> if d \<le> 1 then round_double (1 - d) else Fin 0
               | Some PosInf \<Rightarrow> Fin 0
               | Some NegInf \<Rightarrow> PosInf
               | Some NaN \<Rightarrow> Fin 0)"
  shows "sim (Some (Fin 0)) = Fin 1" and "sim (Some (Fin 1)) = Fin 0"
    and "sim (Some (Fin 1.5)) = Fin 0" and "sim (Some (Fin 0.25)) = Fin 0.75"
    and "sim (Some (Fin double_0_9)) = Fin (900719925474099 / 2 ^ 53)"
    and "sim (Some (Fin double_0_1)) = Fin double_0_9"
proof -
  show "sim (Some (Fin 0)) = Fin 1"
    by (simp add: sim_def round_double_1)
  show "sim (Some (Fin 1)) = Fin 0"
    by (simp add: sim_def round_double_0)
  show "sim (Some (Fin 1.5)) = Fin 0"
    by (simp add: sim_def)
  have "(1 - 0.25 :: real) = 3 / 4" by simp
  then show "sim (Some (Fin 0.25)) = Fin 0.75"
    by (simp add: sim_def round_double_three_quarters)
  have "double_0_9 \<le> 1" by (simp add: double_0_9_def)
  then show "sim (Some (Fin double_0_9)) = Fin (900719925474099 / 2 ^ 53)"
    by (simp only: sim_def option.case pyfloat.case if_True one_minus_double_0_9)
  have "double_0_1 \<le> 1" by (simp add: double_0_1_def)
  then show "sim (Some (Fin double_0_1)) = Fin double_0_9"
    by (simp only: sim_def option.case pyfloat.case if_True one_minus_double_0_1)
qed

lemma demo_scores_threshold_0_1:
  "fl_le (Fin double_0_1) (Fin 1)" "\<not> fl_le (Fin double_0_1) (Fin 0)"
  "fl_le (Fin double_0_1) (Fin 0.75)"
  "\<not> fl_le (Fin double_0_1) (Fin (900719925474099 / 2 ^ 53))"
  "fl_le (Fin double_0_1) (Fin double_0_9)"
  by (simp_all add: fl_le_def double_0_1_def double_0_9_def)

lemma demo_scores_threshold_0_9:
  "fl_le (Fin double_0_9) (Fin 1)" "\<not> fl_le (Fin double_0_9) (Fin 0)"
  "\<not> fl_le (Fin double_0_9) (Fin 0.75)"
  "\<not> fl_le (Fin double_0_9) (Fin (900719925474099 / 2 ^ 53))"
  "fl_le (Fin double_0_9) (Fin double_0_9)"
  by (simp_all add: fl_le_def double_0_9_def)

theorem retrieve_with_scores_similarity_witness:
  "retrieve_with_scores demo_scores ''bali'' ''travel_support'' 6 (Fin double_0_1) [] =
     ([\<lparr>content = ''Bali in May'', metadata = [(''source_file'', ''bali.txt'')],
         distance = Some (Fin 0), similarity = Some (Fin 1)\<rparr>,
       \<lparr>content = ''Oslo'', metadata = [], distance = Some (Fin 0.25),
         similarity = Some (Fin 0.75)\<rparr>,
       \<lparr>content = ''Cairo'', metadata = [], distance = Some (Fin double_0_1),
         similarity = Some (Fin double_0_9)\<rparr>],
      [EmbedQuery ''bali'',
       CollectionQuery [0.25, 0.5] 6 [(''agent_type'', ''travel_support'')]]) \<and>
   retrieve_with_scores demo_scores ''bali'' ''travel_support'' 6 (Fin double_0_9) [] =
     ([\<lparr>content = ''Bali in May'', metadata = [(''source_file'', ''bali.txt'')],
         distance = Some (Fin 0), similarity = Some (Fin 1)\<rparr>,
       \<lparr>content = ''Cairo'', metadata = [], distance = Some (Fin double_0_1),
         similarity = Some (Fin double_0_9)\<rparr>],
      [EmbedQuery ''bali'',
       CollectionQuery [0.25, 0.5] 6 [(''agent_type'', ''travel_support'')]])"
proof -
  define sim where "sim = (\<lambda>dv. case dv of
                 None \<Rightarrow> Fin 0
               | Some (Fin d) \<Rightarrow> if d \<le> 1 then round_double (1 - d) else Fin 0
               | Some PosInf \<Rightarrow> Fin 0
               | Some NegInf \<Rightarrow> PosInf
               | Some NaN \<Rightarrow> Fin 0)"
  note v = demo_scores_similarity_values [folded sim_def]
  have t: "retrieve_with_scores demo_scores ''bali'' ''travel_support'' 6 thr [] =
        (map (\<lambda>doc. doc\<lparr>similarity := Some (sim (distance doc))\<rparr>)
           (filter (\<lambda>doc. fl_le thr (sim (distance doc)))
              (fst (rag_retrieve demo_scores ''bali'' ''travel_support'' 6 None []))),
         snd (rag_retrieve demo_scores ''bali'' ''travel_support'' 6 None []))" for thr
    using retrieve_with_scores_similarity
            [of demo_scores "''bali''" "''travel_support''" 6 thr "[]"]
    unfolding Let_def sim_def by (rule conjunct1)
  show ?thesis
    unfolding t demo_scores_retrieve
    by (simp add: v [simplified] demo_scores_threshold_0_1 [simplified]
        demo_scores_threshold_0_9 [simplified])
qed

section \<open>Lazy initialisation of the caches\<close>


lemma cache_documents_cached:
  "\<exists>docs. cached_documents (cache_documents S a c) a = Some docs"
  by (simp add: cache_documents_def split: option.splits)

lemma cache_documents_present:
  "cached_documents c a = Some docs \<Longrightarrow> cache_documents S a c = c"
  by (simp add: cache_documents_def)

lemma cache_documents_twice:
  "cache_documents S2 a (cache_documents S1 a c) = cache_documents S1 a c"
proof -
  obtain docs where "cached_documents (cache_documents S1 a c) a = Some docs"
    using cache_documents_cached by blast
  then show ?thesis by (rule cache_documents_present)
qed

lemma get_cached_documents_present:
  "cached_documents c a = Some docs \<Longrightarrow> get_cached_documents S a c = (docs, c)"
  by (simp add: get_cached_documents_def)

lemma initialize_cache_initialized: "cache_initialized (initialize_cache S a h)"
  by (auto simp: initialize_cache_def split: prod.splits)

lemma initialize_cache_twice:
  "initialize_cache S2 a2 (initialize_cache S1 a1 h) = initialize_cache S1 a1 h"
  using initialize_cache_initialized [of S1 a1 h]
  by (simp add: initialize_cache_def [of S2])

lemma initialize_cache_loads:
  assumes "\<not> cache_initialized h" and "cached_documents (cag_retriever h) ''policy'' = None"
  shows "loads (cag_retriever (initialize_cache S a h)) = loads (cag_retriever h) @ [''policy'']"
proof -
  let ?c = "cache_documents S ''policy'' (cag_retriever h)"
  obtain docs where d: "cached_documents ?c ''policy'' = Some docs"
    using cache_documents_cached by blast
  have l: "loads ?c = loads (cag_retriever h) @ [''policy'']"
    using assms(2) by (simp add: cache_documents_def)
  show ?thesis
    using assms(1) l
    by (simp add: initialize_cache_def get_cached_documents_present [OF d])
qed

text \<open>
  Claim C7. A second \<open>cache_documents\<close> for the same category leaves the retriever as
  the first call left it, whatever the directory holds by then: no further load is
  recorded and the cached documents are unchanged; the first call, on a category that
  is not cached, performs exactly one load and stores its result. A second
  \<open>initialize_cache\<close> of the hybrid retriever changes nothing, and two calls in
  sequence on a retriever that is not initialised and whose static cache does not hold
  \<open>policy\<close> perform exactly one load, of category \<open>policy\<close>.
\<close>

theorem cache_initialization_exactly_once:
  "cache_documents S2 a (cache_documents S1 a c) = cache_documents S1 a c \<and>
   loads (cache_documents S2 a (cache_documents S1 a c)) = loads (cache_documents S1 a c) \<and>
   cached_documents (cache_documents S2 a (cache_documents S1 a c)) a
     = cached_documents (cache_documents S1 a c) a \<and>
   (cached_documents c a = None \<longrightarrow>
      loads (cache_documents S1 a c) = loads c @ [a] \<and>
      cached_documents (cache_documents S1 a c) a = Some (load_documents S1 a)) \<and>
   initialize_cache S2 a2 (initialize_cache S1 a1 h) = initialize_cache S1 a1 h \<and>
   (\<not> cache_initialized h \<and> cached_documents (cag_retriever h) ''policy'' = None \<longrightarrow>
      loads (cag_retriever (initialize_cache S2 a2 (initialize_cache S1 a1 h)))
        = loads (cag_retriever h) @ [''policy''])"
proof (intro conjI impI)
  show "cache_documents S2 a (cache_documents S1 a c) = cache_documents S1 a c"
    by (rule cache_documents_twice)
  then show "loads (cache_documents S2 a (cache_documents S1 a c)) = loads (cache_documents S1 a c)"
    and "cached_documents (cache_documents S2 a (cache_documents S1 a c)) a
     = cached_documents (cache_documents S1 a c) a"
    by simp_all
  show "initialize_cache S2 a2 (initialize_cache S1 a1 h) = initialize_cache S1 a1 h"
    by (rule initialize_cache_twice)
next
  assume "cached_documents c a = None"
  then show "loads (cache_documents S1 a c) = loads c @ [a]"
    and "cached_documents (cache_documents S1 a c) a = Some (load_documents S1 a)"
    by (simp_all add: cache_documents_def)
next
  assume "\<not> cache_initialized h \<and> cached_documents (cag_retriever h) ''policy'' = None"
  then show "loads (cag_retriever (initialize_cache S2 a2 (initialize_cache S1 a1 h)))
        = loads (cag_retriever h) @ [''policy'']"
    by (simp add: initialize_cache_twice initialize_cache_loads)
qed

text \<open>A new hybrid retriever, initialised twice, has loaded \<open>policy\<close> once.\<close>

theorem cache_initialization_exactly_once_witness:
  "loads (cag_retriever
       (initialize_cache demo_retrieval ''booking_payments''
          (initialize_cache demo_services ''booking_payments'' new_hybrid))) = [''policy''] \<and>
   loads (cache_documents demo_services ''policy'' new_cag) = [''policy''] \<and>
   cache_documents demo_retrieval ''policy'' (cache_documents demo_services ''policy'' new_cag)
     = cache_documents demo_services ''policy'' new_cag"
proof -
  note t = cache_initialization_exactly_once
          [where ?S2.0 = demo_retrieval and a = "''policy''" and ?S1.0 = demo_services
             and c = new_cag and ?a2.0 = "''booking_payments''"
             and ?a1.0 = "''booking_payments''" and h = new_hybrid]
  have h: "\<not> cache_initialized new_hybrid \<and>
           cached_documents (cag_retriever new_hybrid) ''policy'' = None"
    by (simp add: new_hybrid_def new_cag_def)
  have c: "cached_documents new_cag ''policy'' = None"
    by (simp add: new_cag_def)
  from t h have "loads (cag_retriever
       (initialize_cache demo_retrieval ''booking_payments''
          (initialize_cache demo_services ''booking_payments'' new_hybrid)))
      = loads (cag_retriever new_hybrid) @ [''policy'']"
    by blast
  moreover from t c have "loads (cache_documents demo_services ''policy'' new_cag)
      = loads new_cag @ [''policy'']"
    by blast
  moreover from t have "cache_documents demo_retrieval ''policy''
       (cache_documents demo_services ''policy'' new_cag)
     = cache_documents demo_services ''policy'' new_cag"
    by blast
  ultimately show ?thesis
    by (simp add: new_hybrid_def new_cag_def)
qed

section \<open>The static part of hybrid retrieval\<close>


lemma get_cached_documents_result:
  "get_cached_documents S a c = (docs, c') \<Longrightarrow> cached_documents c' a = Some docs"
  by (auto simp: get_cached_documents_def cache_documents_def Let_def split: option.splits)

lemma search_cached_result:
  "search_cached S query a cs c = (m, c') \<Longrightarrow>
     \<exists>docs. cached_documents c' a = Some docs \<and> m = matching_docs query cs docs"
  by (auto simp: search_cached_def split: prod.splits dest: get_cached_documents_result)

lemma matching_docs_sublist:
  "matching_docs query False docs =
     filter (\<lambda>doc. \<exists>t \<in> set (py_split (py_lower query)). sublist t (py_lower doc)) docs"
  by (simp add: matching_docs_def list_ex_iff py_in_sublist)

text \<open>
  What \<open>retrieve\<close> returns as its static part, for every input: the first 3 matches of
  the keyword search (the documents in which some white-space separated term of the
  lower-cased query occurs, case folded) over the policy entry of the static cache,
  that is over all cached policy documents, each wrapped as a document whose metadata
  marks it as a cached static policy.
\<close>

lemma hybrid_retrieve_static_full_cache:
  "\<exists>policy_docs.
     cached_documents (cag_retriever (fst (snd (hybrid_retrieve S query agent_ty top_k True h trace))))
       ''policy'' = Some policy_docs \<and>
     static (fst (hybrid_retrieve S query agent_ty top_k True h trace)) =
       map (\<lambda>doc. \<lparr>content = doc,
                    metadata = [(''agent_type'', ''policy''), (''document_type'', ''static_policy''),
                                (''source'', ''cached'')],
                    distance = None, similarity = None\<rparr>)
         (take 3
            (filter (\<lambda>doc. \<exists>t \<in> set (py_split (py_lower query)). sublist t (py_lower doc))
               policy_docs))"
proof -
  define h1 where "h1 = (if \<not> cache_initialized h then initialize_cache S agent_ty h else h)"
  obtain m c where s: "search_cached S query ''policy'' False (cag_retriever h1) = (m, c)"
    by (cases "search_cached S query ''policy'' False (cag_retriever h1)")
  obtain dd tr where r: "rag_retrieve S query agent_ty top_k None trace = (dd, tr)"
    by (cases "rag_retrieve S query agent_ty top_k None trace")
  from search_cached_result [OF s] obtain docs where
    d: "cached_documents c ''policy'' = Some docs" "m = matching_docs query False docs"
    by blast
  have e: "hybrid_retrieve S query agent_ty top_k True h trace =
     (\<lparr>dynamic = dd, static = map static_doc (first_n 3 m)\<rparr>, h1\<lparr>cag_retriever := c\<rparr>, tr)"
    unfolding hybrid_retrieve_def Let_def h1_def [symmetric] by (simp add: s r)
  have w: "static_doc = (\<lambda>doc. \<lparr>content = doc,
                    metadata = [(''agent_type'', ''policy''), (''document_type'', ''static_policy''),
                                (''source'', ''cached'')],
                    distance = None, similarity = None\<rparr>)"
    by (rule ext) (simp add: static_doc_def)
  show ?thesis
    unfolding e using d by (simp add: first_n_def matching_docs_sublist w)
qed

text \<open>
  The example corpus holds a refund policy and the baggage rules; only the first
  contains one of the five relevance keywords. For the query \<open>baggage allowance\<close> the
  static part is the baggage rules, which the filtered list does not contain.
\<close>

lemma demo_load: "load_documents demo_services a =
    [''Refund policy: refunds within 30 days.'', ''Baggage rules: two bags per traveller.'']"
  by (simp add: load_documents_def demo_services_def py_strip_def is_space_def)

lemma demo_initialize:
  "initialize_cache demo_services ''booking_payments'' new_hybrid =
     \<lparr>cag_retriever =
        \<lparr>cached_documents = [''policy'' \<mapsto>
            [''Refund policy: refunds within 30 days.'', ''Baggage rules: two bags per traveller.'']],
         loads = [''policy'']\<rparr>,
      static_policy_cache = [''Refund policy: refunds within 30 days.''],
      cache_initialized = True\<rparr>"
  by (simp add: initialize_cache_def new_hybrid_def new_cag_def cache_documents_def
      get_cached_documents_def demo_load relevant_policy_keywords_def py_lower_def lower_char_def)

lemma demo_hybrid_retrieve:
  "hybrid_retrieve demo_services ''baggage allowance'' ''booking_payments'' 5 True new_hybrid [] =
     (\<lparr>dynamic = [], static = [static_doc ''Baggage rules: two bags per traveller.'']\<rparr>,
      \<lparr>cag_retriever =
        \<lparr>cached_documents = [''policy'' \<mapsto>
            [''Refund policy: refunds within 30 days.'', ''Baggage rules: two bags per traveller.'']],
         loads = [''policy'']\<rparr>,
      static_policy_cache = [''Refund policy: refunds within 30 days.''],
      cache_initialized = True\<rparr>,
      [EmbedQuery ''baggage allowance''])"
proof -
  have n: "\<not> cache_initialized new_hybrid" by (simp add: new_hybrid_def)
  have r: "rag_retrieve demo_services ''baggage allowance'' ''booking_payments'' 5 None [] =
      ([], [EmbedQuery ''baggage allowance''])"
    by (simp add: rag_retrieve_def demo_services_def)
  have q: "py_split (py_lower ''baggage allowance'') = [''baggage'', ''allowance'']"
    by (simp add: py_split_def py_lower_def lower_char_def is_space_def)
  have m: "matching_docs ''baggage allowance'' False
      [''Refund policy: refunds within 30 days.'', ''Baggage rules: two bags per traveller.'']
     = [''Baggage rules: two bags per traveller.'']"
    unfolding matching_docs_def Let_def q by (simp add: py_lower_def lower_char_def)
  show ?thesis
    unfolding hybrid_retrieve_def Let_def
    by (simp add: n demo_initialize r search_cached_def get_cached_documents_def m first_n_def)
qed

lemma demo_get_static_policies:
  "fst (get_static_policies demo_services
          (fst (snd (hybrid_retrieve demo_services ''baggage allowance'' ''booking_payments'' 5
                       True new_hybrid []))))
     = [''Refund policy: refunds within 30 days.'']"
  unfolding demo_hybrid_retrieve by (simp add: get_static_policies_def)

lemma demo_filtered_matches:
  "matching_docs ''baggage allowance'' False [''Refund policy: refunds within 30 days.''] = []"
proof -
  have q: "py_split (py_lower ''baggage allowance'') = [''baggage'', ''allowance'']"
    by (simp add: py_split_def py_lower_def lower_char_def is_space_def)
  show ?thesis
    unfolding matching_docs_def Let_def q by (simp add: py_lower_def lower_char_def)
qed

text \<open>
  Claim C3 says that the static part of \<open>retrieve\<close> is the first 3 matches of the
  keyword search over the filtered subset of the policy cache. The code does not do
  that. On a new retriever over the example corpus, with the query
  \<open>baggage allowance\<close>: \<open>retrieve\<close> initialises the retriever, and the filtered list, which
  \<open>get_static_policies\<close> returns, holds the refund policy only; the search over it
  finds nothing; yet the static part of the result is the baggage rules, found in the
  unfiltered policy entry of the static cache.
\<close>

theorem hybrid_retrieve_static_part_failing_input:
  "static_policy_cache
      (fst (snd (hybrid_retrieve demo_services ''baggage allowance'' ''booking_payments'' 5 True
                   new_hybrid [])))
     = [''Refund policy: refunds within 30 days.''] \<and>
   fst (get_static_policies demo_services
          (fst (snd (hybrid_retrieve demo_services ''baggage allowance'' ''booking_payments'' 5
                       True new_hybrid []))))
     = [''Refund policy: refunds within 30 days.''] \<and>
   map static_doc
     (first_n 3
        (matching_docs ''baggage allowance'' False
           (static_policy_cache
              (fst (snd (hybrid_retrieve demo_services ''baggage allowance''
                           ''booking_payments'' 5 True new_hybrid []))))))
     = [] \<and>
   static (fst (hybrid_retrieve demo_services ''baggage allowance'' ''booking_payments'' 5 True
                   new_hybrid []))
     = [\<lparr>content = ''Baggage rules: two bags per traveller.'',
         metadata = [(''agent_type'', ''policy''), (''document_type'', ''static_policy''),
                     (''source'', ''cached'')],
         distance = None, similarity = None\<rparr>]"
proof (intro conjI)
  show "static_policy_cache
      (fst (snd (hybrid_retrieve demo_services ''baggage allowance'' ''booking_payments'' 5 True
                   new_hybrid [])))
     = [''Refund policy: refunds within 30 days.'']"
    unfolding demo_hybrid_retrieve by simp
  then show "map static_doc
     (first_n 3
        (matching_docs ''baggage allowance'' False
           (static_policy_cache
              (fst (snd (hybrid_retrieve demo_services ''baggage allowance''
                           ''booking_payments'' 5 True new_hybrid []))))))
     = []"
    by (simp only: demo_filtered_matches) (simp add: first_n_def)
  show "fst (get_static_policies demo_services
          (fst (snd (hybrid_retrieve demo_services ''baggage allowance'' ''booking_payments'' 5
                       True new_hybrid []))))
     = [''Refund policy: refunds within 30 days.'']"
    by (rule demo_get_static_policies)
  show "static (fst (hybrid_retrieve demo_services ''baggage allowance'' ''booking_payments'' 5 True
                   new_hybrid []))
     = [\<lparr>content = ''Baggage rules: two bags per traveller.'',
         metadata = [(''agent_type'', ''policy''), (''document_type'', ''static_policy''),
                     (''source'', ''cached'')],
         distance = None, similarity = None\<rparr>]"
    unfolding demo_hybrid_retrieve by (simp add: static_doc_def)
qed

section \<open>The messages sent to the chat model\<close>


lemma history_messages_window:
  "history_messages h =
     map HumanMessage (map snd (filter (\<lambda>e. fst e = ''user'') (drop (length h - 4) h)))"
  by (simp add: history_messages_def last_n_def case_prod_unfold comp_def)

lemma length_history_messages: "length (history_messages h) \<le> 4"
proof -
  have "length (history_messages h) \<le> length (drop (length h - 4) h)"
    unfolding history_messages_window by (simp del: length_drop)
  also have "\<dots> \<le> 4" by simp
  finally show ?thesis .
qed

lemma travel_messages_eq:
  "travel_messages S query h k w =
     (prompt_messages travel_system_prompt h
        (travel_user_prompt (fst (rag_retrieve S query ''travel_support'' k None (calls w))) query),
      w\<lparr>calls := snd (rag_retrieve S query ''travel_support'' k None (calls w))\<rparr>)"
  by (simp add: travel_messages_def case_prod_beta)

lemma policy_messages_shape:
  "\<exists>docs. fst (policy_messages S query h k w) =
     prompt_messages policy_system_prompt h (policy_user_prompt docs query)"
  by (auto simp: policy_messages_def split: prod.splits if_splits)

lemma booking_messages_shape:
  "\<exists>dd sd. fst (booking_messages S query h k w) =
     prompt_messages booking_system_prompt h (booking_user_prompt dd sd query)"
  by (auto simp: booking_messages_def split: prod.splits)

lemma around_query: "x = a @ m @ q @ b \<Longrightarrow> \<exists>pre post. x = pre @ m @ q @ post"
  by blast

lemma travel_user_prompt_query:
  "\<exists>pre post. travel_user_prompt docs query = pre @ ''User question: '' @ query @ post"
  by (rule around_query [where a = "''Context from knowledge base:\<newline>'' @ c @ ''\<newline>\<newline>''" for c])
     (simp add: travel_user_prompt_def Let_def)

lemma policy_user_prompt_query:
  "\<exists>pre post. policy_user_prompt docs query = pre @ ''User question: '' @ query @ post"
  by (rule around_query [where a = "''Policy Documents:\<newline>'' @ c @ ''\<newline>\<newline>''" for c])
     (simp add: policy_user_prompt_def Let_def)

lemma py_join_snoc: "py_join sep (xs @ [a]) = (if xs = [] then a else py_join sep xs @ sep @ a)"
  by (induction sep xs rule: py_join.induct) auto

lemma py_join_snoc2: "py_join sep (xs @ [a, b]) = py_join sep (xs @ [a]) @ sep @ b"
  using py_join_snoc [of sep "xs @ [a]" b] by simp

lemma booking_user_prompt_query:
  "\<exists>pre post. booking_user_prompt dd sd query = pre @ ''User question: '' @ query @ post"
proof -
  have "\<exists>parts b. booking_user_prompt dd sd query =
          py_join ''\<newline>\<newline>'' (parts @ [''\<newline>User question: '' @ query, b])"
    unfolding booking_user_prompt_def Let_def append_assoc [symmetric] by (intro exI) (rule refl)
  then obtain parts b where
    "booking_user_prompt dd sd query =
       py_join ''\<newline>\<newline>'' (parts @ [''\<newline>User question: '' @ query, b])"
    by blast
  then have e: "booking_user_prompt dd sd query =
       (if parts = [] then ''\<newline>User question: '' @ query
        else py_join ''\<newline>\<newline>'' parts @ ''\<newline>\<newline>'' @ ''\<newline>User question: '' @ query)
       @ ''\<newline>\<newline>'' @ b"
    by (simp only: py_join_snoc2 py_join_snoc)
  show ?thesis
  proof (cases "parts = []")
    case True
    with e have "booking_user_prompt dd sd query =
        ''\<newline>'' @ ''User question: '' @ query @ (''\<newline>\<newline>'' @ b)"
      by simp
    then show ?thesis by blast
  next
    case False
    with e have "booking_user_prompt dd sd query =
        (py_join ''\<newline>\<newline>'' parts @ ''\<newline>\<newline>\<newline>'') @ ''User question: '' @ query
          @ (''\<newline>\<newline>'' @ b)"
      by simp
    then show ?thesis by blast
  qed
qed

lemma generate_response_calls:
  "travel_generate_response S query h k w =
     Inr (fst (invoke_model S TravelSupport (fst (travel_messages S query h k w)) []),
          (snd (travel_messages S query h k w))
            \<lparr>calls := calls (snd (travel_messages S query h k w))
                       @ [LlmInvoke TravelSupport (fst (travel_messages S query h k w))]\<rparr>)"
  "policy_generate_response S query h k w =
     Inr (fst (invoke_model S Policy (fst (policy_messages S query h k w)) []),
          (snd (policy_messages S query h k w))
            \<lparr>calls := calls (snd (policy_messages S query h k w))
                       @ [LlmInvoke Policy (fst (policy_messages S query h k w))]\<rparr>)"
  "booking_generate_response S query h k w =
     Inr (fst (invoke_model S BookingPayments (fst (booking_messages S query h k w)) []),
          (snd (booking_messages S query h k w))
            \<lparr>calls := calls (snd (booking_messages S query h k w))
                       @ [LlmInvoke BookingPayments (fst (booking_messages S query h k w))]\<rparr>)"
  by (simp_all add: travel_generate_response_def policy_generate_response_def
      booking_generate_response_def invoke_model_def case_prod_beta)



text \<open>
  Claim C4, as amended. For each of the three agents, the messages sent to the chat
  model are the system prompt, then the conversation portion, then the user prompt,
  which contains \<open>User question:\<close> followed by the current query. The conversation
  portion is made of the user-authored messages among the last 4 messages of the
  conversation, whatever their roles: the trailing window of 4 is taken over all
  messages, and the assistant and system messages inside it are left out afterwards,
  so they do take up places of the window. The portion has at most 4 messages. These
  messages are the ones the model is invoked with.
\<close>

theorem generation_prompt_conversation_window:
  "(\<exists>user_prompt pre post.
      fst (travel_messages S query h k w) =
        SystemMessage travel_system_prompt
          # map HumanMessage (map snd (filter (\<lambda>e. fst e = ''user'') (drop (length h - 4) h)))
          @ [HumanMessage user_prompt] \<and>
      user_prompt = pre @ ''User question: '' @ query @ post) \<and>
   (\<exists>user_prompt pre post.
      fst (booking_messages S query h k w) =
        SystemMessage booking_system_prompt
          # map HumanMessage (map snd (filter (\<lambda>e. fst e = ''user'') (drop (length h - 4) h)))
          @ [HumanMessage user_prompt] \<and>
      user_prompt = pre @ ''User question: '' @ query @ post) \<and>
   (\<exists>user_prompt pre post.
      fst (policy_messages S query h k w) =
        SystemMessage policy_system_prompt
          # map HumanMessage (map snd (filter (\<lambda>e. fst e = ''user'') (drop (length h - 4) h)))
          @ [HumanMessage user_prompt] \<and>
      user_prompt = pre @ ''User question: '' @ query @ post) \<and>
   length (filter (\<lambda>e. fst e = ''user'') (drop (length h - 4) h)) \<le> 4 \<and>
   (\<exists>answer w'. travel_generate_response S query h k w = Inr (answer, w') \<and>
      last (calls w') = LlmInvoke TravelSupport (fst (travel_messages S query h k w))) \<and>
   (\<exists>answer w'. booking_generate_response S query h k w = Inr (answer, w') \<and>
      last (calls w') = LlmInvoke BookingPayments (fst (booking_messages S query h k w))) \<and>
   (\<exists>answer w'. policy_generate_response S query h k w = Inr (answer, w') \<and>
      last (calls w') = LlmInvoke Policy (fst (policy_messages S query h k w)))"
proof (intro conjI)
  show "\<exists>user_prompt pre post.
      fst (travel_messages S query h k w) =
        SystemMessage travel_system_prompt
          # map HumanMessage (map snd (filter (\<lambda>e. fst e = ''user'') (drop (length h - 4) h)))
          @ [HumanMessage user_prompt] \<and>
      user_prompt = pre @ ''User question: '' @ query @ post"
    using travel_user_prompt_query
    by (simp add: travel_messages_eq prompt_messages_def history_messages_window)
  show "\<exists>user_prompt pre post.
      fst (booking_messages S query h k w) =
        SystemMessage booking_system_prompt
          # map HumanMessage (map snd (filter (\<lambda>e. fst e = ''user'') (drop (length h - 4) h)))
          @ [HumanMessage user_prompt] \<and>
      user_prompt = pre @ ''User question: '' @ query @ post"
  proof -
    obtain dd sd where "fst (booking_messages S query h k w) =
        prompt_messages booking_system_prompt h (booking_user_prompt dd sd query)"
      using booking_messages_shape by blast
    then show ?thesis
      using booking_user_prompt_query [of dd sd query]
      by (simp add: prompt_messages_def history_messages_window)
  qed
  show "\<exists>user_prompt pre post.
      fst (policy_messages S query h k w) =
        SystemMessage policy_system_prompt
          # map HumanMessage (map snd (filter (\<lambda>e. fst e = ''user'') (drop (length h - 4) h)))
          @ [HumanMessage user_prompt] \<and>
      user_prompt = pre @ ''User question: '' @ query @ post"
  proof -
    obtain docs where "fst (policy_messages S query h k w) =
        prompt_messages policy_system_prompt h (policy_user_prompt docs query)"
      using policy_messages_shape by blast
    then show ?thesis
      using policy_user_prompt_query [of docs query]
      by (simp add: prompt_messages_def history_messages_window)
  qed
  show "length (filter (\<lambda>e. fst e = ''user'') (drop (length h - 4) h)) \<le> 4"
    using length_history_messages [of h] by (simp add: history_messages_window)
  show "\<exists>answer w'. travel_generate_response S query h k w = Inr (answer, w') \<and>
      last (calls w') = LlmInvoke TravelSupport (fst (travel_messages S query h k w))"
    by (simp add: generate_response_calls(1))
  show "\<exists>answer w'. booking_generate_response S query h k w = Inr (answer, w') \<and>
      last (calls w') = LlmInvoke BookingPayments (fst (booking_messages S query h k w))"
    by (simp add: generate_response_calls(3))
  show "\<exists>answer w'. policy_generate_response S query h k w = Inr (answer, w') \<and>
      last (calls w') = LlmInvoke Policy (fst (policy_messages S query h k w))"
    by (simp add: generate_response_calls(2))
qed

text \<open>
  In the example conversation (user, assistant, user, assistant, user) the last four
  messages hold two user messages, while the last four user messages are all three.
\<close>

lemma demo_history_window:
  "map snd (filter (\<lambda>e. fst e = ''user'') (drop (length demo_history - 4) demo_history))
     = [''In May'', ''Visa rules?'']"
  by (simp add: demo_history_def)

lemma demo_history_users:
  "map snd (last_n 4 (filter (\<lambda>e. fst e = ''user'') demo_history))
     = [''Bali trip'', ''In May'', ''Visa rules?'']"
  by (simp add: demo_history_def last_n_def)

theorem generation_prompt_conversation_window_witness:
  "\<forall>S w. \<exists>user_prompt.
      fst (travel_messages S ''Visa rules?'' demo_history 5 w) =
        [SystemMessage travel_system_prompt, HumanMessage ''In May'',
         HumanMessage ''Visa rules?'', HumanMessage user_prompt]"
proof (intro allI)
  fix S w
  from generation_prompt_conversation_window [of S "''Visa rules?''" demo_history 5 w]
  obtain user_prompt where
    "fst (travel_messages S ''Visa rules?'' demo_history 5 w) =
        SystemMessage travel_system_prompt
          # map HumanMessage (map snd (filter (\<lambda>e. fst e = ''user'')
               (drop (length demo_history - 4) demo_history)))
          @ [HumanMessage user_prompt]"
    by blast
  then show "\<exists>user_prompt.
      fst (travel_messages S ''Visa rules?'' demo_history 5 w) =
        [SystemMessage travel_system_prompt, HumanMessage ''In May'',
         HumanMessage ''Visa rules?'', HumanMessage user_prompt]"
    unfolding demo_history_window by simp
qed

text \<open>
  Claim C4 as stated fails for each agent: whatever the environment, the conversation
  portion for the example conversation is not the last 4 user-authored messages.
\<close>

theorem generation_prompt_conversation_window_counterexample:
  "\<not> (\<exists>S w system_prompt user_prompt.
        fst (travel_messages S ''Visa rules?'' demo_history 5 w) =
          SystemMessage system_prompt
            # map HumanMessage (map snd (last_n 4 (filter (\<lambda>e. fst e = ''user'') demo_history)))
            @ [HumanMessage user_prompt]) \<and>
   \<not> (\<exists>S w system_prompt user_prompt.
        fst (booking_messages S ''Visa rules?'' demo_history 5 w) =
          SystemMessage system_prompt
            # map HumanMessage (map snd (last_n 4 (filter (\<lambda>e. fst e = ''user'') demo_history)))
            @ [HumanMessage user_prompt]) \<and>
   \<not> (\<exists>S w system_prompt user_prompt.
        fst (policy_messages S ''Visa rules?'' demo_history 5 w) =
          SystemMessage system_prompt
            # map HumanMessage (map snd (last_n 4 (filter (\<lambda>e. fst e = ''user'') demo_history)))
            @ [HumanMessage user_prompt])"
proof -
  have n: "length (prompt_messages sp demo_history up) = 4" for sp up
    by (simp add: prompt_messages_def history_messages_window demo_history_window)
  have t: "length (fst (travel_messages S q demo_history k w)) = 4" for S q k w
    by (simp add: travel_messages_eq n)
  have b: "length (fst (booking_messages S q demo_history k w)) = 4" for S q k w
    using booking_messages_shape [of S q demo_history k w] by (auto simp: n)
  have p: "length (fst (policy_messages S q demo_history k w)) = 4" for S q k w
    using policy_messages_shape [of S q demo_history k w] by (auto simp: n)
  have c: "length (SystemMessage sp
            # map HumanMessage (map snd (last_n 4 (filter (\<lambda>e. fst e = ''user'') demo_history)))
            @ [HumanMessage up]) = 5" for sp up
    unfolding demo_history_users by simp
  show ?thesis
  proof (intro conjI notI)
    assume "\<exists>S w system_prompt user_prompt.
        fst (travel_messages S ''Visa rules?'' demo_history 5 w) =
          SystemMessage system_prompt
            # map HumanMessage (map snd (last_n 4 (filter (\<lambda>e. fst e = ''user'') demo_history)))
            @ [HumanMessage user_prompt]"
    then obtain S w sp up where
      "fst (travel_messages S ''Visa rules?'' demo_history 5 w) =
          SystemMessage sp
            # map HumanMessage (map snd (last_n 4 (filter (\<lambda>e. fst e = ''user'') demo_history)))
            @ [HumanMessage up]"
      by blast
    then have "length (fst (travel_messages S ''Visa rules?'' demo_history 5 w)) = 5"
      by (simp only: c)
    then show False by (simp add: t)
  next
    assume "\<exists>S w system_prompt user_prompt.
        fst (booking_messages S ''Visa rules?'' demo_history 5 w) =
          SystemMessage system_prompt
            # map HumanMessage (map snd (last_n 4 (filter (\<lambda>e. fst e = ''user'') demo_history)))
            @ [HumanMessage user_prompt]"
    then obtain S w sp up where
      "fst (booking_messages S ''Visa rules?'' demo_history 5 w) =
          SystemMessage sp
            # map HumanMessage (map snd (last_n 4 (filter (\<lambda>e. fst e = ''user'') demo_history)))
            @ [HumanMessage up]"
      by blast
    then have "length (fst (booking_messages S ''Visa rules?'' demo_history 5 w)) = 5"
      by (simp only: c)
    then show False by (simp add: b)
  next
    assume "\<exists>S w system_prompt user_prompt.
        fst (policy_messages S ''Visa rules?'' demo_history 5 w) =
          SystemMessage system_prompt
            # map HumanMessage (map snd (last_n 4 (filter (\<lambda>e. fst e = ''user'') demo_history)))
            @ [HumanMessage user_prompt]"
    then obtain S w sp up where
      "fst (policy_messages S ''Visa rules?'' demo_history 5 w) =
          SystemMessage sp
            # map HumanMessage (map snd (last_n 4 (filter (\<lambda>e. fst e = ''user'') demo_history)))
            @ [HumanMessage up]"
      by blast
    then have "length (fst (policy_messages S ''Visa rules?'' demo_history 5 w)) = 5"
      by (simp only: c)
    then show False by (simp add: p)
  qed
qed

section \<open>The nodes of the workflow\<close>


lemma agent_node_no_query:
  "current_query state = None \<or> current_query state = Some [] \<Longrightarrow>
   agent_node g a (state, w) = (state\<lparr>response := Some no_query_apology\<rparr>, w)"
  by (auto simp: agent_node_def)

lemma agent_node_answer:
  "current_query state = Some query \<Longrightarrow> query \<noteq> [] \<Longrightarrow>
   g query (convert_history (messages state)) w = Inr (answer, w') \<Longrightarrow>
   agent_node g a (state, w) =
     (state\<lparr>response := Some answer,
            messages := messages state @ [Message ASSISTANT answer None]\<rparr>, w')"
  by (simp add: agent_node_def)

lemma whitespace_only_strip: "whitespace_only c \<Longrightarrow> py_strip c = []"
proof -
  assume "whitespace_only c"
  then have "\<forall>x \<in> set c. is_space x"
    unfolding whitespace_only_def subset_eq is_space_def list.set .
  then have "dropWhile is_space c = []"
    by (induction c) simp_all
  then show ?thesis
    by (simp only: py_strip_def rev.simps dropWhile.simps)
qed

lemma invoke_model_failed:
  "generation_failed (llm S a msgs) \<Longrightarrow>
   fst (invoke_model S a msgs t) =
     (case llm S a msgs of Inl e \<Rightarrow> generation_error_apology | Inr c \<Rightarrow> empty_response_apology)"
  by (auto simp: invoke_model_def generation_failed_def Let_def whitespace_only_strip
      split: sum.splits)

lemma travel_support_node_answer:
  assumes "current_query state = Some query" and "query \<noteq> []"
  shows "travel_support_node S (state, w) =
     (state\<lparr>response :=
              Some (fst (invoke_model S TravelSupport
                      (fst (travel_messages S query (convert_history (messages state)) 5 w)) [])),
            messages := messages state @
              [Message ASSISTANT
                 (fst (invoke_model S TravelSupport
                      (fst (travel_messages S query (convert_history (messages state)) 5 w)) []))
                 None]\<rparr>,
      (snd (travel_messages S query (convert_history (messages state)) 5 w))
        \<lparr>calls := calls (snd (travel_messages S query (convert_history (messages state)) 5 w))
           @ [LlmInvoke TravelSupport
                (fst (travel_messages S query (convert_history (messages state)) 5 w))]\<rparr>)"
  unfolding travel_support_node_def
  by (rule agent_node_answer [OF assms]) (rule generate_response_calls(1))

lemma booking_payments_node_answer:
  assumes "current_query state = Some query" and "query \<noteq> []"
  shows "booking_payments_node S (state, w) =
     (state\<lparr>response :=
              Some (fst (invoke_model S BookingPayments
                      (fst (booking_messages S query (convert_history (messages state)) 5 w)) [])),
            messages := messages state @
              [Message ASSISTANT
                 (fst (invoke_model S BookingPayments
                      (fst (booking_messages S query (convert_history (messages state)) 5 w)) []))
                 None]\<rparr>,
      (snd (booking_messages S query (convert_history (messages state)) 5 w))
        \<lparr>calls := calls (snd (booking_messages S query (convert_history (messages state)) 5 w))
           @ [LlmInvoke BookingPayments
                (fst (booking_messages S query (convert_history (messages state)) 5 w))]\<rparr>)"
  unfolding booking_payments_node_def
  by (rule agent_node_answer [OF assms]) (rule generate_response_calls(3))

lemma policy_node_answer:
  assumes "current_query state = Some query" and "query \<noteq> []"
  shows "policy_node S (state, w) =
     (state\<lparr>response :=
              Some (fst (invoke_model S Policy
                      (fst (policy_messages S query (convert_history (messages state)) 5 w)) [])),
            messages := messages state @
              [Message ASSISTANT
                 (fst (invoke_model S Policy
                      (fst (policy_messages S query (convert_history (messages state)) 5 w)) []))
                 None]\<rparr>,
      (snd (policy_messages S query (convert_history (messages state)) 5 w))
        \<lparr>calls := calls (snd (policy_messages S query (convert_history (messages state)) 5 w))
           @ [LlmInvoke Policy
                (fst (policy_messages S query (convert_history (messages state)) 5 w))]\<rparr>)"
  unfolding policy_node_def
  by (rule agent_node_answer [OF assms]) (rule generate_response_calls(2))

lemma entry_node_query: "\<exists>q. current_query (entry_node state) = Some q"
  by (simp add: entry_node_def Let_def)

lemma entry_node_frame:
  "messages (entry_node state) = messages state"
  "routing_decision (entry_node state) = routing_decision state"
  "response (entry_node state) = response state"
  by (simp_all add: entry_node_def Let_def)

lemma entry_node_no_user:
  "filter is_user_message (messages state) = [] \<Longrightarrow>
   entry_node state = state\<lparr>current_query := Some ''''\<rparr>"
  by (simp add: entry_node_def)

lemma orchestrator_node_no_query:
  "current_query state = Some [] \<Longrightarrow> orchestrator_node S (state, w) = (state, w)"
  by (simp add: orchestrator_node_def)

lemma orchestrator_node_frame:
  "messages (fst (orchestrator_node S (state, w))) = messages state"
  "current_query (fst (orchestrator_node S (state, w))) = current_query state"
  by (auto simp: orchestrator_node_def Let_def split: option.splits sum.splits)

lemma orchestrator_node_routes:
  assumes "current_query state = Some query" and "query \<noteq> []"
  shows "route_agent (fst (orchestrator_node S (state, w))) \<in> set agent_types"
proof -
  obtain d where "route_query S query = Inr d" "valid_decision d"
    using route_query_valid by blast
  then show ?thesis
    using assms by (simp add: orchestrator_node_def Let_def route_agent_def valid_decision_def)
qed



lemma run_graph_cases:
  assumes "routing_decision state = None"
  obtains (empty) "current_query (entry_node state) = Some []"
      "run_graph S (state, w) = Inr (travel_support_node S (entry_node state, w))"
  | (routed) query node where "current_query (entry_node state) = Some query" "query \<noteq> []"
      "node \<in> {travel_support_node S, booking_payments_node S, policy_node S}"
      "run_graph S (state, w) = Inr (node (orchestrator_node S (entry_node state, w)))"
proof -
  obtain q where q: "current_query (entry_node state) = Some q"
    using entry_node_query by blast
  show thesis
  proof (cases "q = []")
    case True
    with q have e: "current_query (entry_node state) = Some []" by simp
    have "route_agent (entry_node state) = ''travel_support''"
      using assms by (simp add: route_agent_def entry_node_frame)
    then have "run_graph S (state, w) = Inr (travel_support_node S (entry_node state, w))"
      by (simp add: run_graph_def orchestrator_node_no_query [OF e])
    with e show thesis by (rule empty)
  next
    case False
    obtain st2 w2 where o: "orchestrator_node S (entry_node state, w) = (st2, w2)"
      by (cases "orchestrator_node S (entry_node state, w)")
    have "route_agent (fst (orchestrator_node S (entry_node state, w))) \<in> set agent_types"
      using q False by (rule orchestrator_node_routes)
    then have r: "route_agent st2 \<in> set agent_types" by (simp add: o)
    then consider "route_agent st2 = ''travel_support''" | "route_agent st2 = ''booking_payments''"
      | "route_agent st2 = ''policy''"
      by (auto simp: agent_types_def)
    then show thesis
    proof cases
      case 1
      then have "run_graph S (state, w) =
          Inr (travel_support_node S (orchestrator_node S (entry_node state, w)))"
        by (simp add: run_graph_def o)
      with q False show thesis by (intro routed [of q "travel_support_node S"]) simp_all
    next
      case 2
      then have "run_graph S (state, w) =
          Inr (booking_payments_node S (orchestrator_node S (entry_node state, w)))"
        by (simp add: run_graph_def o)
      with q False show thesis by (intro routed [of q "booking_payments_node S"]) simp_all
    next
      case 3
      then have "run_graph S (state, w) =
          Inr (policy_node S (orchestrator_node S (entry_node state, w)))"
        by (simp add: run_graph_def o)
      with q False show thesis by (intro routed [of q "policy_node S"]) simp_all
    qed
  qed
qed

lemma node_outcome:
  assumes "node \<in> {travel_support_node S, booking_payments_node S, policy_node S}"
    and "current_query state = Some query" and "query \<noteq> []"
  shows "\<exists>a msgs w'. a \<noteq> Orchestrator \<and> node (state, w) =
           (state\<lparr>response := Some (fst (invoke_model S a msgs [])),
                  messages := messages state
                    @ [Message ASSISTANT (fst (invoke_model S a msgs [])) None]\<rparr>, w')"
proof -
  have t: "\<exists>a msgs w'. a \<noteq> Orchestrator \<and> travel_support_node S (state, w) =
           (state\<lparr>response := Some (fst (invoke_model S a msgs [])),
                  messages := messages state
                    @ [Message ASSISTANT (fst (invoke_model S a msgs [])) None]\<rparr>, w')"
    unfolding travel_support_node_answer [OF assms(2,3)]
    by (intro exI [of _ TravelSupport] exI conjI) (simp, rule refl)
  have b: "\<exists>a msgs w'. a \<noteq> Orchestrator \<and> booking_payments_node S (state, w) =
           (state\<lparr>response := Some (fst (invoke_model S a msgs [])),
                  messages := messages state
                    @ [Message ASSISTANT (fst (invoke_model S a msgs [])) None]\<rparr>, w')"
    unfolding booking_payments_node_answer [OF assms(2,3)]
    by (intro exI [of _ BookingPayments] exI conjI) (simp, rule refl)
  have p: "\<exists>a msgs w'. a \<noteq> Orchestrator \<and> policy_node S (state, w) =
           (state\<lparr>response := Some (fst (invoke_model S a msgs [])),
                  messages := messages state
                    @ [Message ASSISTANT (fst (invoke_model S a msgs [])) None]\<rparr>, w')"
    unfolding policy_node_answer [OF assms(2,3)]
    by (intro exI [of _ Policy] exI conjI) (simp, rule refl)
  from assms(1) t b p show ?thesis
    by (elim insertE emptyE) (simp_all only:)
qed

lemma node_short_circuit:
  assumes "node \<in> {travel_support_node S, booking_payments_node S, policy_node S}"
    and "current_query state = None \<or> current_query state = Some []"
  shows "node (state, w) = (state\<lparr>response := Some no_query_apology\<rparr>, w)"
  using assms
  by (auto simp: travel_support_node_def booking_payments_node_def policy_node_def
      agent_node_no_query simp del: append.simps)

section \<open>Failures of the generation service\<close>


text \<open>
  Claim C6. In each of the three agent nodes, with a current query that is not empty:
  when the generation service raises, or returns white space only (the empty text
  included), on the messages the node sends it, the node returns (no exception leaves
  it), its answer is a fixed apology (one text when the service raised, another when
  the output was empty), the apology is the state's response and it is appended to the
  conversation as a new assistant message; the service was invoked once, last. A whole
  run of the workflow in which the generation calls of the answering agents fail,
  whatever the classifier does, still completes, with an apology as the response and
  as the new last message of the conversation.
\<close>

theorem agent_nodes_apologise_on_generation_failure:
  assumes "current_query state = Some query" and "query \<noteq> []"
  shows
    "(generation_failed
        (llm S TravelSupport
           (fst (travel_messages S query (convert_history (messages state)) 5 w))) \<longrightarrow>
      (\<exists>apology w'.
         apology =
           (case llm S TravelSupport
                   (fst (travel_messages S query (convert_history (messages state)) 5 w)) of
              Inl e \<Rightarrow> generation_error_apology | Inr c \<Rightarrow> empty_response_apology) \<and>
         travel_support_node S (state, w) =
           (state\<lparr>response := Some apology,
                  messages := messages state @ [Message ASSISTANT apology None]\<rparr>, w') \<and>
         last (calls w') =
           LlmInvoke TravelSupport
             (fst (travel_messages S query (convert_history (messages state)) 5 w)))) \<and>
     (generation_failed
        (llm S BookingPayments
           (fst (booking_messages S query (convert_history (messages state)) 5 w))) \<longrightarrow>
      (\<exists>apology w'.
         apology =
           (case llm S BookingPayments
                   (fst (booking_messages S query (convert_history (messages state)) 5 w)) of
              Inl e \<Rightarrow> generation_error_apology | Inr c \<Rightarrow> empty_response_apology) \<and>
         booking_payments_node S (state, w) =
           (state\<lparr>response := Some apology,
                  messages := messages state @ [Message ASSISTANT apology None]\<rparr>, w') \<and>
         last (calls w') =
           LlmInvoke BookingPayments
             (fst (booking_messages S query (convert_history (messages state)) 5 w)))) \<and>
     (generation_failed
        (llm S Policy
           (fst (policy_messages S query (convert_history (messages state)) 5 w))) \<longrightarrow>
      (\<exists>apology w'.
         apology =
           (case llm S Policy
                   (fst (policy_messages S query (convert_history (messages state)) 5 w)) of
              Inl e \<Rightarrow> generation_error_apology | Inr c \<Rightarrow> empty_response_apology) \<and>
         policy_node S (state, w) =
           (state\<lparr>response := Some apology,
                  messages := messages state @ [Message ASSISTANT apology None]\<rparr>, w') \<and>
         last (calls w') =
           LlmInvoke Policy
             (fst (policy_messages S query (convert_history (messages state)) 5 w)))) \<and>
     (routing_decision state0 = None \<and> current_query (entry_node state0) \<noteq> Some [] \<and>
      (\<forall>a msgs. a \<noteq> Orchestrator \<longrightarrow> generation_failed (llm S a msgs)) \<longrightarrow>
      (\<exists>apology st' w'.
         run_graph S (state0, w0) = Inr (st', w') \<and>
         apology \<in> {generation_error_apology, empty_response_apology} \<and>
         response st' = Some apology \<and>
         messages st' = messages state0 @ [Message ASSISTANT apology None]))"
proof (intro conjI impI)
  assume f: "generation_failed
        (llm S TravelSupport
           (fst (travel_messages S query (convert_history (messages state)) 5 w)))"
  show "\<exists>apology w'.
         apology =
           (case llm S TravelSupport
                   (fst (travel_messages S query (convert_history (messages state)) 5 w)) of
              Inl e \<Rightarrow> generation_error_apology | Inr c \<Rightarrow> empty_response_apology) \<and>
         travel_support_node S (state, w) =
           (state\<lparr>response := Some apology,
                  messages := messages state @ [Message ASSISTANT apology None]\<rparr>, w') \<and>
         last (calls w') =
           LlmInvoke TravelSupport
             (fst (travel_messages S query (convert_history (messages state)) 5 w))"
    unfolding travel_support_node_answer [OF assms] invoke_model_failed [OF f]
    by (intro exI conjI) (rule refl, rule refl, simp)
next
  assume f: "generation_failed
        (llm S BookingPayments
           (fst (booking_messages S query (convert_history (messages state)) 5 w)))"
  show "\<exists>apology w'.
         apology =
           (case llm S BookingPayments
                   (fst (booking_messages S query (convert_history (messages state)) 5 w)) of
              Inl e \<Rightarrow> generation_error_apology | Inr c \<Rightarrow> empty_response_apology) \<and>
         booking_payments_node S (state, w) =
           (state\<lparr>response := Some apology,
                  messages := messages state @ [Message ASSISTANT apology None]\<rparr>, w') \<and>
         last (calls w') =
           LlmInvoke BookingPayments
             (fst (booking_messages S query (convert_history (messages state)) 5 w))"
    unfolding booking_payments_node_answer [OF assms] invoke_model_failed [OF f]
    by (intro exI conjI) (rule refl, rule refl, simp)
next
  assume f: "generation_failed
        (llm S Policy
           (fst (policy_messages S query (convert_history (messages state)) 5 w)))"
  show "\<exists>apology w'.
         apology =
           (case llm S Policy
                   (fst (policy_messages S query (convert_history (messages state)) 5 w)) of
              Inl e \<Rightarrow> generation_error_apology | Inr c \<Rightarrow> empty_response_apology) \<and>
         policy_node S (state, w) =
           (state\<lparr>response := Some apology,
                  messages := messages state @ [Message ASSISTANT apology None]\<rparr>, w') \<and>
         last (calls w') =
           LlmInvoke Policy
             (fst (policy_messages S query (convert_history (messages state)) 5 w))"
    unfolding policy_node_answer [OF assms] invoke_model_failed [OF f]
    by (intro exI conjI) (rule refl, rule refl, simp)
next
  assume a: "routing_decision state0 = None \<and> current_query (entry_node state0) \<noteq> Some [] \<and>
      (\<forall>a msgs. a \<noteq> Orchestrator \<longrightarrow> generation_failed (llm S a msgs))"
  then have rd: "routing_decision state0 = None" by blast
  from rd show "\<exists>apology st' w'.
         run_graph S (state0, w0) = Inr (st', w') \<and>
         apology \<in> {generation_error_apology, empty_response_apology} \<and>
         response st' = Some apology \<and>
         messages st' = messages state0 @ [Message ASSISTANT apology None]"
  proof (cases rule: run_graph_cases [where S = S and w = w0])
    case empty
    with a show ?thesis by blast
  next
    case (routed q node)
    obtain st2 w2 where o: "orchestrator_node S (entry_node state0, w0) = (st2, w2)"
      by (cases "orchestrator_node S (entry_node state0, w0)")
    have m: "messages st2 = messages state0" and c: "current_query st2 = Some q"
      using orchestrator_node_frame [of S "entry_node state0" w0] routed(1)
      by (simp_all add: o entry_node_frame)
    from node_outcome [OF routed(3) c routed(2)] obtain ag msgs w' where
      ag: "ag \<noteq> Orchestrator" and
      n: "node (st2, w2) =
           (st2\<lparr>response := Some (fst (invoke_model S ag msgs [])),
                messages := messages st2
                    @ [Message ASSISTANT (fst (invoke_model S ag msgs [])) None]\<rparr>, w')"
      by blast
    from a ag have "generation_failed (llm S ag msgs)" by blast
    then have "fst (invoke_model S ag msgs []) \<in> {generation_error_apology, empty_response_apology}"
      by (auto simp: invoke_model_failed split: sum.splits)
    then show ?thesis
      using routed(4) by (simp only: o n m) auto
  qed
qed

text \<open>
  In the example environment the travel support model raises and the other two return
  white space only (ASCII blanks for one, a no-break space and a next-line character
  for the other). Each node answers the example request with the apology for its kind
  of failure and appends it; the whole run, whose classifier works, ends with an
  apology too.
\<close>

lemma demo_generation_down_llm:
  "llm demo_generation_down TravelSupport msgs = Inl (ProviderError ''timeout'')"
  "llm demo_generation_down BookingPayments msgs = Inr [CHR 0x20, CHR 0x0A, CHR 0x09]"
  "llm demo_generation_down Policy msgs = Inr [CHR 0xA0, CHR 0x85]"
  by (simp_all add: demo_generation_down_def)

lemma demo_generation_down_failed:
  "a \<noteq> Orchestrator \<Longrightarrow> generation_failed (llm demo_generation_down a msgs)"
  by (cases a) (simp_all add: demo_generation_down_llm generation_failed_def whitespace_only_def)

lemma demo_state_query: "current_query demo_state = Some ''Visa rules?''" "''Visa rules?'' \<noteq> []"
  by (simp_all add: demo_state_def)

lemma demo_state_entry: "current_query (entry_node demo_state) = Some ''Visa rules?''"
  by (simp add: entry_node_def demo_state_def is_user_message_def)

theorem agent_nodes_apologise_on_generation_failure_witness:
  "fst (travel_support_node demo_generation_down (demo_state, new_world demo_generation_down)) =
     demo_state\<lparr>response := Some generation_error_apology,
                messages := messages demo_state
                  @ [Message ASSISTANT generation_error_apology None]\<rparr> \<and>
   fst (booking_payments_node demo_generation_down (demo_state, new_world demo_generation_down)) =
     demo_state\<lparr>response := Some empty_response_apology,
                messages := messages demo_state
                  @ [Message ASSISTANT empty_response_apology None]\<rparr> \<and>
   fst (policy_node demo_generation_down (demo_state, new_world demo_generation_down)) =
     demo_state\<lparr>response := Some empty_response_apology,
                messages := messages demo_state
                  @ [Message ASSISTANT empty_response_apology None]\<rparr> \<and>
   (\<exists>apology st' w'.
      run_graph demo_generation_down (demo_state, new_world demo_generation_down) = Inr (st', w') \<and>
      apology \<in> {generation_error_apology, empty_response_apology} \<and>
      response st' = Some apology \<and>
      messages st' = messages demo_state @ [Message ASSISTANT apology None])"
proof -
  note t = agent_nodes_apologise_on_generation_failure
             [OF demo_state_query, of demo_generation_down "new_world demo_generation_down"
                demo_state "new_world demo_generation_down"]
  have f: "generation_failed (llm demo_generation_down TravelSupport m1)"
    "generation_failed (llm demo_generation_down BookingPayments m2)"
    "generation_failed (llm demo_generation_down Policy m3)" for m1 m2 m3
    by (simp_all add: demo_generation_down_failed)
  have r: "routing_decision demo_state = None \<and>
           current_query (entry_node demo_state) \<noteq> Some [] \<and>
           (\<forall>a msgs. a \<noteq> Orchestrator \<longrightarrow> generation_failed (llm demo_generation_down a msgs))"
    by (simp add: demo_state_entry demo_generation_down_failed) (simp add: demo_state_def)
  from t f have "\<exists>w'. travel_support_node demo_generation_down
        (demo_state, new_world demo_generation_down) =
      (demo_state\<lparr>response := Some generation_error_apology,
                  messages := messages demo_state
                    @ [Message ASSISTANT generation_error_apology None]\<rparr>, w')"
    unfolding demo_generation_down_llm by (auto simp del: append.simps)
  then have 1: "fst (travel_support_node demo_generation_down
        (demo_state, new_world demo_generation_down)) =
      demo_state\<lparr>response := Some generation_error_apology,
                 messages := messages demo_state
                   @ [Message ASSISTANT generation_error_apology None]\<rparr>"
    by (auto simp del: append.simps)
  from t f have "\<exists>w'. booking_payments_node demo_generation_down
        (demo_state, new_world demo_generation_down) =
      (demo_state\<lparr>response := Some empty_response_apology,
                  messages := messages demo_state
                    @ [Message ASSISTANT empty_response_apology None]\<rparr>, w')"
    unfolding demo_generation_down_llm by (auto simp del: append.simps)
  then have 2: "fst (booking_payments_node demo_generation_down
        (demo_state, new_world demo_generation_down)) =
      demo_state\<lparr>response := Some empty_response_apology,
                 messages := messages demo_state
                   @ [Message ASSISTANT empty_response_apology None]\<rparr>"
    by (auto simp del: append.simps)
  from t f have "\<exists>w'. policy_node demo_generation_down
        (demo_state, new_world demo_generation_down) =
      (demo_state\<lparr>response := Some empty_response_apology,
                  messages := messages demo_state
                    @ [Message ASSISTANT empty_response_apology None]\<rparr>, w')"
    unfolding demo_generation_down_llm by (auto simp del: append.simps)
  then have 3: "fst (policy_node demo_generation_down
        (demo_state, new_world demo_generation_down)) =
      demo_state\<lparr>response := Some empty_response_apology,
                 messages := messages demo_state
                   @ [Message ASSISTANT empty_response_apology None]\<rparr>"
    by (auto simp del: append.simps)
  from t r have 4: "\<exists>apology st' w'.
      run_graph demo_generation_down (demo_state, new_world demo_generation_down) = Inr (st', w') \<and>
      apology \<in> {generation_error_apology, empty_response_apology} \<and>
      response st' = Some apology \<and>
      messages st' = messages demo_state @ [Message ASSISTANT apology None]"
    by blast
  from 1 2 3 4 show ?thesis by (intro conjI)
qed

section \<open>Requests without a query\<close>


text \<open>
  Claim C9. When the conversation holds no message written by the user, the entry
  node sets the current query to the empty text, and each of the three agent nodes,
  run on the state the entry node returns, puts the apology into the response and
  returns the agents' state unchanged: the record of calls to the embedding service,
  the vector store and the chat models has no new entry, and the caches and their
  load records are as before, so neither the retrieval strategy nor the generation
  service was invoked. A whole run, from a state without a routing decision, ends in
  that state with the agents' state unchanged.
\<close>

theorem no_user_message_short_circuits:
  assumes "filter is_user_message (messages state) = []"
  shows
    "entry_node state = state\<lparr>current_query := Some ''''\<rparr> \<and>
     current_query (entry_node state) = Some '''' \<and>
     travel_support_node S (entry_node state, w) =
       ((entry_node state)\<lparr>response := Some no_query_apology\<rparr>, w) \<and>
     booking_payments_node S (entry_node state, w) =
       ((entry_node state)\<lparr>response := Some no_query_apology\<rparr>, w) \<and>
     policy_node S (entry_node state, w) =
       ((entry_node state)\<lparr>response := Some no_query_apology\<rparr>, w) \<and>
     (routing_decision state = None \<longrightarrow>
        run_graph S (state, w) = Inr ((entry_node state)\<lparr>response := Some no_query_apology\<rparr>, w))"
proof -
  have e: "entry_node state = state\<lparr>current_query := Some ''''\<rparr>"
    using assms by (rule entry_node_no_user)
  then have q: "current_query (entry_node state) = None \<or> current_query (entry_node state) = Some []"
    by simp
  have n: "node (entry_node state, w) = ((entry_node state)\<lparr>response := Some no_query_apology\<rparr>, w)"
    if "node \<in> {travel_support_node S, booking_payments_node S, policy_node S}" for node
    using that q by (rule node_short_circuit)
  have r: "run_graph S (state, w) = Inr ((entry_node state)\<lparr>response := Some no_query_apology\<rparr>, w)"
    if "routing_decision state = None"
    using that
  proof (cases rule: run_graph_cases [where S = S and w = w])
    case empty
    then show ?thesis by (simp add: n)
  next
    case (routed query node)
    with e show ?thesis by simp
  qed
  from e have c: "current_query (entry_node state) = Some ''''"
    by simp
  show ?thesis
    using e c n [of "travel_support_node S"] n [of "booking_payments_node S"]
      n [of "policy_node S"] r
    by (intro conjI impI) simp_all
qed

text \<open>
  A conversation of a system and an assistant message, with every service available:
  the run ends with the apology and the agents' state as it was.
\<close>

theorem no_user_message_short_circuits_witness:
  "run_graph demo_retrieval (demo_no_user_state, new_world demo_retrieval) =
     Inr (demo_no_user_state\<lparr>current_query := Some '''', response := Some no_query_apology\<rparr>,
          new_world demo_retrieval) \<and>
   policy_node demo_retrieval (entry_node demo_no_user_state, new_world demo_retrieval) =
     (demo_no_user_state\<lparr>current_query := Some '''', response := Some no_query_apology\<rparr>,
      new_world demo_retrieval)"
proof -
  have u: "filter is_user_message (messages demo_no_user_state) = []"
    by (simp add: demo_no_user_state_def is_user_message_def)
  have d: "routing_decision demo_no_user_state = None"
    by (simp add: demo_no_user_state_def demo_state_def)
  note t = no_user_message_short_circuits [OF u, of demo_retrieval "new_world demo_retrieval"]
  from t have e: "entry_node demo_no_user_state = demo_no_user_state\<lparr>current_query := Some ''''\<rparr>"
    by blast
  from t d have "run_graph demo_retrieval (demo_no_user_state, new_world demo_retrieval) =
     Inr ((entry_node demo_no_user_state)\<lparr>response := Some no_query_apology\<rparr>,
          new_world demo_retrieval)"
    by blast
  moreover from t have "policy_node demo_retrieval
       (entry_node demo_no_user_state, new_world demo_retrieval) =
     ((entry_node demo_no_user_state)\<lparr>response := Some no_query_apology\<rparr>,
      new_world demo_retrieval)"
    by blast
  ultimately show ?thesis
    unfolding e by (intro conjI) (simp_all only:)
qed

text \<open>
  Claim C10. When the current query is missing or the empty text, each of the three
  agent nodes changes nothing but the response, which becomes the apology: the list
  of messages is the same, no assistant message is appended. A whole run whose entry
  node finds the empty query (from a state without a routing decision) returns a
  conversation of the same length as at entry, with the apology as the response. With
  a query that is not empty, each node returns a conversation one message longer.
\<close>

theorem empty_query_leaves_conversation_unchanged:
  "(current_query state = None \<or> current_query state = Some '''' \<longrightarrow>
      travel_support_node S (state, w) = (state\<lparr>response := Some no_query_apology\<rparr>, w) \<and>
      booking_payments_node S (state, w) = (state\<lparr>response := Some no_query_apology\<rparr>, w) \<and>
      policy_node S (state, w) = (state\<lparr>response := Some no_query_apology\<rparr>, w) \<and>
      messages (fst (travel_support_node S (state, w))) = messages state \<and>
      messages (fst (booking_payments_node S (state, w))) = messages state \<and>
      messages (fst (policy_node S (state, w))) = messages state) \<and>
   (routing_decision state = None \<and> current_query (entry_node state) = Some '''' \<longrightarrow>
      (\<exists>st' w'. run_graph S (state, w) = Inr (st', w') \<and>
         response st' = Some no_query_apology \<and>
         messages st' = messages state \<and>
         length (messages st') = length (messages state))) \<and>
   (\<forall>query. current_query state = Some query \<and> query \<noteq> [] \<longrightarrow>
      length (messages (fst (travel_support_node S (state, w)))) = length (messages state) + 1 \<and>
      length (messages (fst (booking_payments_node S (state, w)))) = length (messages state) + 1 \<and>
      length (messages (fst (policy_node S (state, w)))) = length (messages state) + 1)"
proof (intro conjI impI allI)
  assume q: "current_query state = None \<or> current_query state = Some ''''"
  have n: "node (state, w) = (state\<lparr>response := Some no_query_apology\<rparr>, w)"
    if "node \<in> {travel_support_node S, booking_payments_node S, policy_node S}" for node
    using that q by (rule node_short_circuit)
  show "travel_support_node S (state, w) = (state\<lparr>response := Some no_query_apology\<rparr>, w)"
    and "booking_payments_node S (state, w) = (state\<lparr>response := Some no_query_apology\<rparr>, w)"
    and "policy_node S (state, w) = (state\<lparr>response := Some no_query_apology\<rparr>, w)"
    and "messages (fst (travel_support_node S (state, w))) = messages state"
    and "messages (fst (booking_payments_node S (state, w))) = messages state"
    and "messages (fst (policy_node S (state, w))) = messages state"
    by (simp_all add: n)
next
  assume a: "routing_decision state = None \<and> current_query (entry_node state) = Some ''''"
  then have rd: "routing_decision state = None" by blast
  from a have q: "current_query (entry_node state) = None \<or> current_query (entry_node state) = Some []"
    by simp
  from rd show "\<exists>st' w'. run_graph S (state, w) = Inr (st', w') \<and>
         response st' = Some no_query_apology \<and>
         messages st' = messages state \<and>
         length (messages st') = length (messages state)"
  proof (cases rule: run_graph_cases [where S = S and w = w])
    case empty
    have "travel_support_node S (entry_node state, w) =
        ((entry_node state)\<lparr>response := Some no_query_apology\<rparr>, w)"
      using q by (intro node_short_circuit [where S = S]) simp_all
    with empty(2) show ?thesis by (simp add: entry_node_frame)
  next
    case (routed query node)
    with a show ?thesis by simp
  qed
next
  fix query
  assume a: "current_query state = Some query \<and> query \<noteq> []"
  then have c: "current_query state = Some query" and ne: "query \<noteq> []" by simp_all
  show "length (messages (fst (travel_support_node S (state, w)))) = length (messages state) + 1"
    by (simp add: travel_support_node_answer [OF c ne])
  show "length (messages (fst (booking_payments_node S (state, w)))) = length (messages state) + 1"
    by (simp add: booking_payments_node_answer [OF c ne])
  show "length (messages (fst (policy_node S (state, w)))) = length (messages state) + 1"
    by (simp add: policy_node_answer [OF c ne])
qed

text \<open>
  The example request with its query emptied keeps its five messages; with the query
  in place the travel support node returns six.
\<close>

theorem empty_query_leaves_conversation_unchanged_witness:
  "messages (fst (policy_node demo_retrieval
       (demo_state\<lparr>current_query := Some ''''\<rparr>, new_world demo_retrieval)))
     = messages demo_state \<and>
   (\<exists>st' w'. run_graph demo_retrieval (demo_no_user_state, new_world demo_retrieval)
               = Inr (st', w') \<and>
      response st' = Some no_query_apology \<and>
      length (messages st') = length (messages demo_no_user_state)) \<and>
   length (messages (fst (travel_support_node demo_models_down
       (demo_state, new_world demo_models_down)))) = 6"
proof -
  note t1 = empty_query_leaves_conversation_unchanged
              [of "demo_state\<lparr>current_query := Some ''''\<rparr>" demo_retrieval
                  "new_world demo_retrieval"]
  note t2 = empty_query_leaves_conversation_unchanged
              [of demo_no_user_state demo_retrieval "new_world demo_retrieval"]
  note t3 = empty_query_leaves_conversation_unchanged
              [of demo_state demo_models_down "new_world demo_models_down"]
  have e: "routing_decision demo_no_user_state = None \<and>
           current_query (entry_node demo_no_user_state) = Some ''''"
    by (simp add: demo_no_user_state_def demo_state_def entry_node_def is_user_message_def)
  have q: "current_query demo_state = Some ''Visa rules?'' \<and> ''Visa rules?'' \<noteq> []"
    by (simp add: demo_state_def)
  have l: "length (messages demo_state) = 5"
    by (simp add: demo_state_def)
  from t1 have "messages (fst (policy_node demo_retrieval
       (demo_state\<lparr>current_query := Some ''''\<rparr>, new_world demo_retrieval)))
     = messages demo_state"
    by simp
  moreover from t2 e have "\<exists>st' w'. run_graph demo_retrieval
        (demo_no_user_state, new_world demo_retrieval) = Inr (st', w') \<and>
      response st' = Some no_query_apology \<and>
      length (messages st') = length (messages demo_no_user_state)"
    by blast
  moreover from t3 q have "length (messages (fst (travel_support_node demo_models_down
       (demo_state, new_world demo_models_down)))) = length (messages demo_state) + 1"
    by blast
  ultimately show ?thesis by (simp add: l)
qed


end
